theory Spec2Isabelle
  imports Complex_Main
begin

section \<open>JavaScript numbers\<close>

text \<open>
  The monitoring hook computes with JavaScript numbers. A number is modelled as a real,
  or one of the three non-finite values of IEEE arithmetic. Finite arithmetic is exact
  (no rounding, no overflow to an infinity) and the sign of zero is not tracked (a finite
  value divided by zero takes its sign from the numerator alone; the only zero divisor
  met below is the \<open>0 / 0\<close> of a mean over no intervals). Comparisons with \<open>NaN\<close> are
  false, and \<open>Math.min\<close> and \<open>Math.max\<close> return \<open>NaN\<close> as soon as one argument is
  \<open>NaN\<close>.
\<close>

datatype jsnum = Fin real | PInf | NInf | NaN

fun js_add :: "jsnum \<Rightarrow> jsnum \<Rightarrow> jsnum" where
  "js_add NaN _ = NaN"
| "js_add _ NaN = NaN"
| "js_add (Fin a) (Fin b) = Fin (a + b)"
| "js_add PInf NInf = NaN"
| "js_add NInf PInf = NaN"
| "js_add PInf _ = PInf"
| "js_add _ PInf = PInf"
| "js_add NInf _ = NInf"
| "js_add _ NInf = NInf"

fun js_neg :: "jsnum \<Rightarrow> jsnum" where
  "js_neg (Fin a) = Fin (- a)"
| "js_neg PInf = NInf"
| "js_neg NInf = PInf"
| "js_neg NaN = NaN"

fun js_inf_signed :: "bool \<Rightarrow> jsnum" where
  "js_inf_signed pos = (if pos then PInf else NInf)"

fun js_mul :: "jsnum \<Rightarrow> jsnum \<Rightarrow> jsnum" where
  "js_mul NaN _ = NaN"
| "js_mul _ NaN = NaN"
| "js_mul (Fin a) (Fin b) = Fin (a * b)"
| "js_mul (Fin a) PInf = (if a = 0 then NaN else js_inf_signed (0 < a))"
| "js_mul (Fin a) NInf = (if a = 0 then NaN else js_inf_signed (a < 0))"
| "js_mul PInf (Fin b) = (if b = 0 then NaN else js_inf_signed (0 < b))"
| "js_mul NInf (Fin b) = (if b = 0 then NaN else js_inf_signed (b < 0))"
| "js_mul PInf PInf = PInf"
| "js_mul NInf NInf = PInf"
| "js_mul PInf NInf = NInf"
| "js_mul NInf PInf = NInf"

fun js_div :: "jsnum \<Rightarrow> jsnum \<Rightarrow> jsnum" where
  "js_div NaN _ = NaN"
| "js_div _ NaN = NaN"
| "js_div (Fin a) (Fin b) =
     (if b = 0 then (if a = 0 then NaN else js_inf_signed (0 < a)) else Fin (a / b))"
| "js_div (Fin a) _ = Fin 0"
| "js_div PInf (Fin b) = js_inf_signed (0 \<le> b)"
| "js_div NInf (Fin b) = js_inf_signed (b < 0)"
| "js_div _ _ = NaN"

fun js_lt :: "jsnum \<Rightarrow> jsnum \<Rightarrow> bool" where
  "js_lt NaN _ = False"
| "js_lt _ NaN = False"
| "js_lt (Fin a) (Fin b) = (a < b)"
| "js_lt PInf _ = False"
| "js_lt _ PInf = True"
| "js_lt _ NInf = False"
| "js_lt NInf _ = True"

fun js_le :: "jsnum \<Rightarrow> jsnum \<Rightarrow> bool" where
  "js_le NaN _ = False"
| "js_le _ NaN = False"
| "js_le a b = (a = b \<or> js_lt a b)"

fun js_abs :: "jsnum \<Rightarrow> jsnum" where
  "js_abs (Fin a) = Fin \<bar>a\<bar>"
| "js_abs NaN = NaN"
| "js_abs _ = PInf"

instantiation jsnum :: "{plus, minus, uminus, times, inverse, abs, ord}"
begin

definition plus_jsnum :: "jsnum \<Rightarrow> jsnum \<Rightarrow> jsnum" where
  "plus_jsnum a b = js_add a b"

definition uminus_jsnum :: "jsnum \<Rightarrow> jsnum" where
  "uminus_jsnum a = js_neg a"

definition minus_jsnum :: "jsnum \<Rightarrow> jsnum \<Rightarrow> jsnum" where
  "minus_jsnum a b = js_add a (js_neg b)"

definition times_jsnum :: "jsnum \<Rightarrow> jsnum \<Rightarrow> jsnum" where
  "times_jsnum a b = js_mul a b"

definition divide_jsnum :: "jsnum \<Rightarrow> jsnum \<Rightarrow> jsnum" where
  "divide_jsnum a b = js_div a b"

definition inverse_jsnum :: "jsnum \<Rightarrow> jsnum" where
  "inverse_jsnum a = js_div (Fin 1) a"

definition abs_jsnum :: "jsnum \<Rightarrow> jsnum" where
  "abs_jsnum a = js_abs a"

definition less_jsnum :: "jsnum \<Rightarrow> jsnum \<Rightarrow> bool" where
  "less_jsnum a b = js_lt a b"

definition less_eq_jsnum :: "jsnum \<Rightarrow> jsnum \<Rightarrow> bool" where
  "less_eq_jsnum a b = js_le a b"

instance ..

end

text \<open>\<open>Number.isFinite\<close>, \<open>Math.min\<close> and \<open>Math.max\<close> (two arguments).\<close>

fun isFinite :: "jsnum \<Rightarrow> bool" where
  "isFinite (Fin _) = True"
| "isFinite _ = False"

definition Math_min :: "jsnum \<Rightarrow> jsnum \<Rightarrow> jsnum" where
  "Math_min a b = (if a = NaN \<or> b = NaN then NaN else if a < b then a else b)"

definition Math_max :: "jsnum \<Rightarrow> jsnum \<Rightarrow> jsnum" where
  "Math_max a b = (if a = NaN \<or> b = NaN then NaN else if a < b then b else a)"

section \<open>Audio analysis: envelope statistics, peak detection and periodicity\<close>

text \<open>
  The envelope entries are \<open>Math.round(bandRatio * 100)\<close> of a ratio clamped to the unit
  interval and the timestamps are \<open>Date.now()\<close> readings, so the statistics below are
  taken over finite values: reals for amplitudes, integers for milliseconds. A quotient
  that JavaScript can evaluate as \<open>0 / 0\<close> is kept as a \<open>jsnum\<close>.
\<close>

text \<open>\<open>arr.reduce((s, x) => s + x, 0)\<close>\<close>

definition reduce_sum :: "real list \<Rightarrow> real" where
  "reduce_sum arr = foldl (\<lambda>s x. s + x) 0 arr"

text \<open>
  \<open>median\<close>: the middle of the sorted copy, or the mean of the two middle entries. On the
  empty array JavaScript reads \<open>undefined\<close> twice and returns \<open>NaN\<close>.
\<close>

definition median :: "real list \<Rightarrow> jsnum" where
  "median arr =
     (let s = sort arr; m = length s div 2 in
      if length s mod 2 = 1 then Fin (s ! m)
      else if s = [] then NaN
      else Fin ((s ! (m - 1) + s ! m) / 2))"

definition std :: "real list \<Rightarrow> real" where
  "std arr =
     (if arr = [] then 0
      else
        let mean = reduce_sum arr / real (length arr) in
        sqrt (foldl (\<lambda>s x. s + (x - mean) * (x - mean)) 0 arr / real (length arr)))"

record peak =
  p_idx :: nat
  p_t :: int
  p_v :: real

text \<open>
  One iteration of the loop of \<open>detectPeaks\<close> at index \<open>i\<close>; \<open>clock i\<close> is the reading of
  \<open>Date.now()\<close> taken when \<open>times[i]\<close> is missing. The two \<open>continue\<close>/skip paths leave
  the list of peaks as it is.
\<close>

definition peak_step ::
  "real list \<Rightarrow> int list \<Rightarrow> (nat \<Rightarrow> int) \<Rightarrow> real \<Rightarrow> real \<Rightarrow> real \<Rightarrow> jsnum \<Rightarrow> real \<Rightarrow>
   peak list \<Rightarrow> nat \<Rightarrow> peak list" where
  "peak_step vals tms clock minAmp minSeparationMs prominenceStd med s peaks i =
     (let v = vals ! i in
      if v > vals ! (i - 1) \<and> v \<ge> vals ! (i + 1) then
        let t = (if i < length tms then tms ! i else clock i) in
        if peaks \<noteq> [] \<and> real_of_int (t - p_t (last peaks)) < minSeparationMs then peaks
        else
          let prominenceOk = (if s > 0 then med + Fin (prominenceStd * s) \<le> Fin v else True) in
          if prominenceOk \<and> v \<ge> minAmp then peaks @ [\<lparr>p_idx = i, p_t = t, p_v = v\<rparr>]
          else peaks
      else peaks)"

text \<open>The loop runs over \<open>i = 1, ..., values.length - 2\<close>.\<close>

definition detectPeaks ::
  "real list \<Rightarrow> int list \<Rightarrow> (nat \<Rightarrow> int) \<Rightarrow> real \<Rightarrow> real \<Rightarrow> real \<Rightarrow> peak list" where
  "detectPeaks vals tms clock minAmp minSeparationMs prominenceStd =
     (if vals = [] then []
      else
        let med = median vals; s = std vals in
        foldl (peak_step vals tms clock minAmp minSeparationMs prominenceStd med s) []
          [1 ..< length vals - 1])"

record periodicity =
  ok :: bool
  intervals :: "int list"

text \<open>\<open>intervals.push(peaks[i].t - peaks[i - 1].t)\<close> for \<open>i = 1, ..., peaks.length - 1\<close>.\<close>

definition peak_intervals :: "peak list \<Rightarrow> int list" where
  "peak_intervals peaks = map (\<lambda>i. p_t (peaks ! i) - p_t (peaks ! (i - 1))) [1 ..< length peaks]"

definition evaluatePeriodicity :: "peak list \<Rightarrow> nat \<Rightarrow> real \<Rightarrow> periodicity" where
  "evaluatePeriodicity peaks minPeaks maxIntervalStdMs =
     (if length peaks < minPeaks then \<lparr>ok = False, intervals = []\<rparr>
      else
        let ivs = peak_intervals peaks;
            meanI = Fin (reduce_sum (map real_of_int ivs)) / Fin (real (length ivs));
            stdI = std (map real_of_int ivs)
        in if stdI \<le> maxIntervalStdMs \<and> Fin 200 \<le> meanI \<and> meanI \<le> Fin 2000
           then \<lparr>ok = True, intervals = ivs\<rparr>
           else \<lparr>ok = False, intervals = ivs\<rparr>)"

section \<open>The sound-analysis hook\<close>

record sound_cfg =
  sampleIntervalMs :: real
  silenceDbThreshold :: real
  silenceSeconds :: real
  varianceWindowSize :: nat

text \<open>
  The options of \<open>useSoundAnalysis\<close> that \<open>sampleAudio\<close> reads, with their defaults
  (the frequency band and the analyser settings enter through the readings of a sample).
\<close>

definition default_cfg :: sound_cfg where
  "default_cfg =
     \<lparr>sampleIntervalMs = 200, silenceDbThreshold = - 55, silenceSeconds = 5,
      varianceWindowSize = 8\<rparr>"

record sound_state =
  lastSampleTime :: real
  silenceStart :: "real option"
  varianceBuf :: "jsnum list"
  envelopeBuffer :: "int list"
  envelopeTime :: "int list"
  lastVolume :: jsnum
  lastBand :: real
  lastSilent :: bool
  volume :: jsnum
  bandEnergyLow :: real
  isSilent :: bool

text \<open>The refs as \<open>start()\<close> leaves them, with the initial published values.\<close>

definition sound_start :: sound_state where
  "sound_start =
     \<lparr>lastSampleTime = 0, silenceStart = None, varianceBuf = [], envelopeBuffer = [],
      envelopeTime = [], lastVolume = Fin 0, lastBand = 0, lastSilent = False,
      volume = Fin 0, bandEnergyLow = 0, isSilent = False\<rparr>"

text \<open>
  One call of \<open>sampleAudio\<close>. The analyser and the two readings it gives are outside the
  program: \<open>a_analyser\<close> says whether the analyser exists, \<open>a_captureOk\<close> whether
  \<open>getFloatTimeDomainData\<close> returned, \<open>a_db\<close> is the result of \<open>computeRmsDb\<close>,
  \<open>a_specVar\<close> that of \<open>computeSpectralVariance\<close> and \<open>a_bandRatio\<close> that of
  \<open>computeLowBandRatio\<close>; \<open>a_now\<close> is \<open>performance.now()\<close> and \<open>a_dateNow\<close> is
  \<open>Date.now()\<close>.
\<close>

record audio_in =
  a_analyser :: bool
  a_now :: real
  a_captureOk :: bool
  a_db :: jsnum
  a_specVar :: jsnum
  a_bandRatio :: real
  a_dateNow :: int

definition MAX_ENV :: nat where
  "MAX_ENV = 512"

definition currentlySilent :: "sound_cfg \<Rightarrow> audio_in \<Rightarrow> bool" where
  "currentlySilent cfg x =
     (a_db x < Fin (silenceDbThreshold cfg) \<and> a_specVar x < Fin (1 / 10 ^ 8))"

text \<open>The gate at the head of \<open>sampleAudio\<close>: the sample is taken and analysed.\<close>

definition sample_taken :: "sound_cfg \<Rightarrow> sound_state \<Rightarrow> audio_in \<Rightarrow> bool" where
  "sample_taken cfg s x =
     (a_analyser x \<and> \<not> a_now x - lastSampleTime s < sampleIntervalMs cfg \<and> a_captureOk x)"

text \<open>The blocks of \<open>sampleAudio\<close> that write state, in the order of the source.\<close>

definition envelope_stage :: "real \<Rightarrow> int \<Rightarrow> sound_state \<Rightarrow> sound_state" where
  "envelope_stage bandRatio dateNow s =
     (let envVal = round (bandRatio * 100);
          env1 = envelopeBuffer s @ [envVal];
          tm1 = envelopeTime s @ [dateNow]
      in if length env1 > MAX_ENV
         then s\<lparr>envelopeBuffer := tl env1, envelopeTime := tl tm1\<rparr>
         else s\<lparr>envelopeBuffer := env1, envelopeTime := tm1\<rparr>)"

definition variance_stage :: "sound_cfg \<Rightarrow> jsnum \<Rightarrow> sound_state \<Rightarrow> sound_state" where
  "variance_stage cfg specVar s =
     (let vbuf1 = varianceBuf s @ [specVar]
      in s\<lparr>varianceBuf := (if length vbuf1 > varianceWindowSize cfg then tl vbuf1 else vbuf1)\<rparr>)"

definition silence_stage :: "sound_cfg \<Rightarrow> bool \<Rightarrow> real \<Rightarrow> sound_state \<Rightarrow> sound_state" where
  "silence_stage cfg silentNow now s =
     (if silentNow then
        let start = (case silenceStart s of None \<Rightarrow> now | Some t0 \<Rightarrow> t0);
            elapsed = now - start;
            s1 = s\<lparr>silenceStart := Some start\<rparr>
        in if elapsed \<ge> silenceSeconds cfg * 1000 then
             (if \<not> lastSilent s1 then s1\<lparr>lastSilent := True, isSilent := True\<rparr> else s1)
           else s1
      else
        (if lastSilent s then s\<lparr>lastSilent := False, isSilent := False\<rparr> else s)
          \<lparr>silenceStart := None\<rparr>)"

definition volume_stage :: "jsnum \<Rightarrow> sound_state \<Rightarrow> sound_state" where
  "volume_stage normalized s =
     (if Fin (5 / 1000) < \<bar>normalized - lastVolume s\<bar>
      then s\<lparr>lastVolume := normalized, volume := normalized\<rparr> else s)"

definition band_stage :: "real \<Rightarrow> sound_state \<Rightarrow> sound_state" where
  "band_stage bandRatio s =
     (if 5 / 1000 < \<bar>bandRatio - lastBand s\<bar>
      then s\<lparr>lastBand := bandRatio, bandEnergyLow := bandRatio\<rparr> else s)"

definition sampleAudio :: "sound_cfg \<Rightarrow> sound_state \<Rightarrow> audio_in \<Rightarrow> sound_state" where
  "sampleAudio cfg s x =
     (if \<not> a_analyser x then s
      else if a_now x - lastSampleTime s < sampleIntervalMs cfg then s
      else
        let s1 = s\<lparr>lastSampleTime := a_now x\<rparr> in
        if \<not> a_captureOk x then s1
        else
          let now = a_now x;
              normalized = Math_max (Fin 0) (Math_min (Fin 1) ((a_db x + Fin 120) / Fin 120));
              bandRatio = a_bandRatio x;
              s2 = envelope_stage bandRatio (a_dateNow x) s1;
              s3 = variance_stage cfg (a_specVar x) s2;
              s4 = silence_stage cfg (currentlySilent cfg x) now s3;
              s5 = volume_stage normalized s4;
              s6 = band_stage bandRatio s5
          in s6)"

text \<open>\<open>arr.slice(-n)\<close>: the last \<open>n\<close> entries, and the whole array when \<open>n\<close> is zero.\<close>

definition slice_last :: "nat \<Rightarrow> 'a list \<Rightarrow> 'a list" where
  "slice_last n xs = (if n = 0 then xs else drop (length xs - n) xs)"

definition recentEnvelope :: "sound_state \<Rightarrow> nat \<Rightarrow> int list \<times> int list" where
  "recentEnvelope s maxSamples =
     (slice_last maxSamples (envelopeBuffer s), slice_last maxSamples (envelopeTime s))"

text \<open>A run of the sampling loop from a given state.\<close>

definition sample_run :: "sound_cfg \<Rightarrow> sound_state \<Rightarrow> audio_in list \<Rightarrow> sound_state" where
  "sample_run cfg s xs = foldl (sampleAudio cfg) s xs"

section \<open>The driver-monitoring hook\<close>

datatype status = AWAKE | DROWSY

text \<open>
  The refs of \<open>useDriverMonitoring\<close>, the entries of \<open>prevValuesRef\<close> that the processing
  effect reads (\<open>pv_\<close>, \<open>None\<close> while unset) and the published React state. Entries of the
  PERCLOS buffer are pairs of a timestamp and a closed flag (\<open>0\<close> or \<open>1\<close>). The pending
  \<open>setTimeout\<close> calls that clear the blink flag are kept as the list of their due times.
\<close>

record monitor_state =
  lastUpdate :: int
  prevEyesClosed :: bool
  lastEye_closed :: bool
  lastEye_lastChangeTs :: int
  percBuffer :: "(int \<times> nat) list"
  longBlinkCount :: nat
  lastPitch :: "jsnum option"
  lastPitchTs :: "int option"
  currentVel :: "jsnum option"
  emaRef :: jsnum
  mouthRef :: "jsnum option"
  calibrating :: bool
  calibrationStartTs :: "int option"
  calibrationSamples :: "jsnum list"
  baselineEar :: "jsnum option"
  EAR_CLOSED_REF :: jsnum
  EAR_OPEN_REF :: jsnum
  pv_drowsyScore :: "jsnum option"
  pv_perclos :: "real option"
  pv_continuousClose :: "bool option"
  pv_blinkCount :: "nat option"
  pv_soundWarning :: "bool option"
  status :: status
  drowsyScore :: jsnum
  drowsyHistory :: "nat list"
  calibrationProgress :: real
  blinkCount :: nat
  blinkDetected :: bool
  blinkTimers :: "int list"
  soundWarning :: bool
  continuousClose :: bool
  perclosState :: real
  ear :: jsnum
  mar :: jsnum

text \<open>The hook as mounted at time \<open>mountTs\<close> (the \<open>Date.now()\<close> of the first render).\<close>

definition monitor_init :: "int \<Rightarrow> monitor_state" where
  "monitor_init mountTs =
     \<lparr>lastUpdate = 0, prevEyesClosed = False, lastEye_closed = False,
      lastEye_lastChangeTs = mountTs, percBuffer = [], longBlinkCount = 0,
      lastPitch = None, lastPitchTs = None, currentVel = None, emaRef = Fin 0,
      mouthRef = None, calibrating = False, calibrationStartTs = None,
      calibrationSamples = [], baselineEar = None,
      EAR_CLOSED_REF = Fin (26 / 100), EAR_OPEN_REF = Fin (3 / 10),
      pv_drowsyScore = None, pv_perclos = None, pv_continuousClose = None,
      pv_blinkCount = None, pv_soundWarning = None,
      status = AWAKE, drowsyScore = Fin 0, drowsyHistory = [], calibrationProgress = 0,
      blinkCount = 0, blinkDetected = False, blinkTimers = [], soundWarning = False,
      continuousClose = False, perclosState = 0, ear = Fin 0, mar = Fin 0\<rparr>"

subsection \<open>Configuration constants\<close>

definition calibrationDurationMs :: int where "calibrationDurationMs = 10000"
definition PERCLOS_WINDOW_MS :: int where "PERCLOS_WINDOW_MS = 30000"
definition PERCLOS_ALERT :: real where "PERCLOS_ALERT = 12 / 100"
definition CONTINUOUS_CLOSE_MS_ALERT :: int where "CONTINUOUS_CLOSE_MS_ALERT = 500"
definition LONG_BLINK_MS :: int where "LONG_BLINK_MS = 250"
definition LONG_BLINK_MAX_MS :: int where "LONG_BLINK_MAX_MS = 500"
definition YAWN_MAR_NORMALIZE :: real where "YAWN_MAR_NORMALIZE = 55 / 100"
definition HEAD_NOD_ANGLE_DEG :: real where "HEAD_NOD_ANGLE_DEG = 7"
definition HEAD_NOD_VEL_DEG_PER_S :: real where "HEAD_NOD_VEL_DEG_PER_S = 5"
definition SOUND_SUPPORT_WEIGHT :: real where "SOUND_SUPPORT_WEIGHT = 25 / 100"
definition SMOOTH_ALPHA :: real where "SMOOTH_ALPHA = 6 / 10"
definition UPDATE_MS :: int where "UPDATE_MS = 180"
definition W_EYES :: real where "W_EYES = 8 / 10"
definition W_PERCLOS :: real where "W_PERCLOS = 5 / 10"
definition W_MAR :: real where "W_MAR = 35 / 100"
definition W_HEAD :: real where "W_HEAD = 4 / 10"
definition W_SOUND :: real where "W_SOUND = SOUND_SUPPORT_WEIGHT"

subsection \<open>Calibration\<close>

text \<open>\<open>calibrationSamplesRef.current.reduce((s, x) => s + x, 0)\<close>\<close>

definition reduce_sum_js :: "jsnum list \<Rightarrow> jsnum" where
  "reduce_sum_js arr = foldl (\<lambda>s x. s + x) (Fin 0) arr"

definition startCalibration :: "int \<Rightarrow> monitor_state \<Rightarrow> monitor_state" where
  "startCalibration now s =
     s\<lparr>calibrationSamples := [], calibrationStartTs := Some now, calibrating := True,
       calibrationProgress := 0\<rparr>"

definition stopCalibration :: "monitor_state \<Rightarrow> monitor_state" where
  "stopCalibration s =
     (let s1 = s\<lparr>calibrating := False, calibrationStartTs := None\<rparr> in
      if calibrationSamples s1 \<noteq> [] then
        let avg = reduce_sum_js (calibrationSamples s1)
                    / Fin (real (length (calibrationSamples s1)));
            closed = Math_max (Fin (12 / 100)) (avg * Fin (6 / 10));
            opened = Math_max (closed + Fin (4 / 100)) (avg * Fin (75 / 100))
        in s1\<lparr>baselineEar := Some avg, EAR_CLOSED_REF := closed, EAR_OPEN_REF := opened,
              calibrationProgress := 1\<rparr>
      else s1\<lparr>calibrationProgress := 1\<rparr>)"

text \<open>The calibration block of the processing effect.\<close>

definition calibration_stage :: "int \<Rightarrow> jsnum \<Rightarrow> monitor_state \<Rightarrow> monitor_state" where
  "calibration_stage nowTs EAR s =
     (case (calibrating s, calibrationStartTs s) of
        (True, Some startTs) \<Rightarrow>
          let s1 = s\<lparr>calibrationSamples := calibrationSamples s @ [EAR]\<rparr>;
              elapsed = nowTs - startTs;
              progress = min 1 (real_of_int elapsed / real_of_int calibrationDurationMs);
              s2 = s1\<lparr>calibrationProgress :=
                     (if \<bar>calibrationProgress s1 - progress\<bar> > 1 / 100 then progress
                      else calibrationProgress s1)\<rparr>
          in if elapsed \<ge> calibrationDurationMs then stopCalibration s2 else s2
      | _ \<Rightarrow> s)"

subsection \<open>Eye closure: hysteresis, blink classification, PERCLOS window\<close>

definition eyesCurrentlyClosed :: "monitor_state \<Rightarrow> jsnum \<Rightarrow> bool" where
  "eyesCurrentlyClosed s EAR =
     (if prevEyesClosed s then EAR < EAR_OPEN_REF s else EAR < EAR_CLOSED_REF s)"

text \<open>
  The transition block: taken when the new closed flag differs from the recorded eye
  state. A closed period that ends is a blink when its duration is at least
  \<open>LONG_BLINK_MS\<close> and below \<open>LONG_BLINK_MAX_MS\<close>.
\<close>

definition eye_stage :: "int \<Rightarrow> bool \<Rightarrow> monitor_state \<Rightarrow> monitor_state" where
  "eye_stage nowTs closedNow s =
     (let s1 =
        (if closedNow \<noteq> lastEye_closed s then
           let durationMs = nowTs - lastEye_lastChangeTs s;
               s0 = (if lastEye_closed s then
                       (if durationMs \<ge> LONG_BLINK_MS \<and> durationMs < LONG_BLINK_MAX_MS then
                          s\<lparr>longBlinkCount := longBlinkCount s + 1,
                            blinkCount := blinkCount s + 1,
                            blinkDetected := True,
                            blinkTimers := blinkTimers s @ [nowTs + 300]\<rparr>
                        else s)
                     else s\<lparr>blinkDetected := False\<rparr>)
           in s0\<lparr>lastEye_closed := closedNow, lastEye_lastChangeTs := nowTs\<rparr>
         else s)
      in s1\<lparr>prevEyesClosed := closedNow\<rparr>)"

text \<open>The first pending timer fires: \<open>setBlinkDetected(false)\<close>.\<close>

definition blink_timer_fires :: "monitor_state \<Rightarrow> monitor_state" where
  "blink_timer_fires s =
     (case blinkTimers s of [] \<Rightarrow> s
      | _ # rest \<Rightarrow> s\<lparr>blinkDetected := False, blinkTimers := rest\<rparr>)"

text \<open>\<open>while (buf.length && buf[0].ts < nowTs - PERCLOS_WINDOW_MS) buf.shift()\<close>\<close>

fun prune :: "int \<Rightarrow> (int \<times> nat) list \<Rightarrow> (int \<times> nat) list" where
  "prune nowTs [] = []"
| "prune nowTs (e # es) =
     (if fst e < nowTs - PERCLOS_WINDOW_MS then prune nowTs es else e # es)"

definition perclos_stage :: "int \<Rightarrow> bool \<Rightarrow> monitor_state \<Rightarrow> monitor_state" where
  "perclos_stage nowTs closedNow s =
     s\<lparr>percBuffer := prune nowTs (percBuffer s @ [(nowTs, if closedNow then 1 else 0)])\<rparr>"

definition perclos_of :: "(int \<times> nat) list \<Rightarrow> real" where
  "perclos_of buf =
     (let closedSum = foldl (\<lambda>s x. s + snd x) 0 buf;
          windowLen = max 1 (length buf)
      in real closedSum / real windowLen)"

definition continuousCloseTriggered :: "int \<Rightarrow> bool \<Rightarrow> monitor_state \<Rightarrow> bool" where
  "continuousCloseTriggered nowTs closedNow s =
     (let continuousClosedMs = (if closedNow then nowTs - lastEye_lastChangeTs s else 0)
      in continuousClosedMs \<ge> CONTINUOUS_CLOSE_MS_ALERT)"

subsection \<open>Head pitch velocity and nod detection\<close>

text \<open>The smoothed pitch velocity of the tick and the value left in \<open>currentVel\<close>.\<close>

definition pitch_velocity :: "int \<Rightarrow> jsnum \<Rightarrow> monitor_state \<Rightarrow> jsnum \<times> jsnum option" where
  "pitch_velocity nowTs pitchDeg s =
     (case (lastPitch s, lastPitchTs s) of
        (Some lp, Some lts) \<Rightarrow>
          let dt = real_of_int (nowTs - lts) / 1000 in
          if dt > 0 then
            let rawVel = (pitchDeg - lp) / Fin dt;
                prevVel = (case currentVel s of None \<Rightarrow> Fin 0 | Some pv \<Rightarrow> pv);
                alpha = 5 / 10;
                smoothed = prevVel * Fin (1 - alpha) + rawVel * Fin alpha
            in (smoothed, Some smoothed)
          else (Fin 0, currentVel s)
      | _ \<Rightarrow> (Fin 0, currentVel s))"

definition headNodDetected :: "jsnum \<Rightarrow> jsnum \<Rightarrow> bool" where
  "headNodDetected pitchDeg pitchVel =
     (let absPitchDeg = \<bar>pitchDeg\<bar>; absPitchVel = \<bar>pitchVel\<bar> in
      (Fin HEAD_NOD_ANGLE_DEG < pitchDeg \<and> Fin HEAD_NOD_VEL_DEG_PER_S < absPitchVel) \<or>
      (Fin (2 * HEAD_NOD_VEL_DEG_PER_S) < absPitchVel \<and>
       Fin (HEAD_NOD_ANGLE_DEG / 2) < absPitchDeg))"

subsection \<open>Sound score\<close>

text \<open>The trailing moving average over at most three samples.\<close>

definition envSm :: "int list \<Rightarrow> real list" where
  "envSm envelope =
     map (\<lambda>i. let start = i - 2;
                  slice = map real_of_int (take (i + 1 - start) (drop start envelope))
              in reduce_sum slice / real (length slice))
       [0 ..< length envelope]"

text \<open>The sound score before the final clamp, and the sound-warning flag.\<close>

definition sound_score :: "int list \<Rightarrow> int list \<Rightarrow> (nat \<Rightarrow> int) \<Rightarrow> real \<Rightarrow> real \<times> bool" where
  "sound_score envelope tms clock band =
     (if length envelope \<ge> 8 then
        let peaks = detectPeaks (envSm envelope) tms clock 14 150 1;
            periodic = evaluatePeriodicity peaks 3 500
        in if ok periodic then (0 + 1 * min 1 (real (length peaks) / 6), True)
           else if band > 25 / 100 then (0 + 5 / 10, True)
           else (0, False)
      else if band > 25 / 100 then (0 + 4 / 10, True)
      else (0, False))"

subsection \<open>Fusion\<close>

text \<open>
  The exponential moving average, then the weighted sum with its finiteness guard and
  clamp, the average and the drowsiness decision: \<open>fuse\<close> returns the raw score, the new
  average and \<open>isDrowsy\<close>.
\<close>

definition ema_update :: "jsnum \<Rightarrow> jsnum \<Rightarrow> jsnum" where
  "ema_update prevEma newScoreUnsmoothed =
     prevEma * Fin (1 - SMOOTH_ALPHA) + newScoreUnsmoothed * Fin SMOOTH_ALPHA"

definition fuse ::
  "jsnum \<Rightarrow> jsnum \<Rightarrow> jsnum \<Rightarrow> jsnum \<Rightarrow> jsnum \<Rightarrow> jsnum \<Rightarrow> jsnum \<times> jsnum \<times> bool" where
  "fuse prevEma eyesInstant perclosComponent marComponent headComponent soundComponent =
     (let sum0 = Fin W_EYES * eyesInstant + Fin W_PERCLOS * perclosComponent
                   + Fin W_MAR * marComponent + Fin W_HEAD * headComponent
                   + Fin W_SOUND * soundComponent;
          sum1 = (if \<not> isFinite sum0 then Fin 0 else sum0);
          newScoreUnsmoothed = Math_max (Fin 0) (Math_min (Fin 1) sum1);
          ema = ema_update prevEma newScoreUnsmoothed
      in (newScoreUnsmoothed, ema, Fin (5 / 10) < ema))"

subsection \<open>The processing effect\<close>

text \<open>
  One run of the effect on a landmark frame of 68 points, as the effect sees it.
  \<open>f_now\<close> is its \<open>Date.now()\<close>. The eye aspect ratio \<open>EAR\<close>, the mouth aspect ratio
  \<open>MAR\<close> and the pitch angle are quotients and an arc tangent of landmark distances;
  they are taken as given, finite or not (coincident landmarks give \<open>0 / 0\<close> or a
  division by zero). \<open>f_envelope\<close> and \<open>f_times\<close> are the result of
  \<open>recentEnvelope(256)\<close>, \<open>f_band\<close> is the published low-band energy and \<open>f_clock\<close>
  gives the \<open>Date.now()\<close> readings of the peak detector.
\<close>

record frame_in =
  f_now :: int
  f_EAR :: jsnum
  f_MAR :: jsnum
  f_pitchDeg :: jsnum
  f_envelope :: "int list"
  f_times :: "int list"
  f_band :: real
  f_clock :: "nat \<Rightarrow> int"

text \<open>\<open>arr.slice(k)\<close> for an integer \<open>k\<close>.\<close>

definition js_slice_from :: "int \<Rightarrow> 'a list \<Rightarrow> 'a list" where
  "js_slice_from k xs =
     (if k < 0 then drop (nat (int (length xs) + k)) xs else drop (nat k) xs)"

text \<open>The blocks of the effect body that write state, in the order of the source.\<close>

definition ear_stage :: "int \<Rightarrow> jsnum \<Rightarrow> monitor_state \<Rightarrow> monitor_state" where
  "ear_stage nowTs EAR s =
     s\<lparr>lastUpdate := nowTs,
       ear := (if Fin (5 / 10000) < \<bar>ear s - EAR\<bar> then EAR else ear s)\<rparr>"

definition mouth_stage :: "jsnum \<Rightarrow> monitor_state \<Rightarrow> monitor_state" where
  "mouth_stage MAR_score s =
     s\<lparr>mar := (if Fin (5 / 10000) < \<bar>mar s - MAR_score\<bar> then MAR_score else mar s),
       mouthRef := Some MAR_score\<rparr>"

definition head_stage :: "int \<Rightarrow> jsnum \<Rightarrow> monitor_state \<Rightarrow> monitor_state" where
  "head_stage nowTs pitchDeg s =
     s\<lparr>currentVel := snd (pitch_velocity nowTs pitchDeg s),
       lastPitch := Some pitchDeg, lastPitchTs := Some nowTs\<rparr>"

definition publish_score :: "jsnum \<Rightarrow> monitor_state \<Rightarrow> monitor_state" where
  "publish_score ema s =
     (if Fin (5 / 1000) < \<bar>(case pv_drowsyScore s of None \<Rightarrow> Fin 0 | Some d \<Rightarrow> d) - ema\<bar>
      then s\<lparr>pv_drowsyScore := Some ema, drowsyScore := ema\<rparr> else s)"

definition publish_history :: "nat \<Rightarrow> bool \<Rightarrow> monitor_state \<Rightarrow> monitor_state" where
  "publish_history maxPoints isDrowsy s =
     s\<lparr>drowsyHistory :=
         js_slice_from (1 - int maxPoints) (drowsyHistory s) @ [if isDrowsy then 1 else 0]\<rparr>"

definition publish_perclos :: "real \<Rightarrow> monitor_state \<Rightarrow> monitor_state" where
  "publish_perclos perclos s =
     (if 2 / 1000 < \<bar>(case pv_perclos s of None \<Rightarrow> 0 | Some q \<Rightarrow> q) - perclos\<bar>
      then s\<lparr>pv_perclos := Some perclos, perclosState := perclos\<rparr> else s)"

definition publish_continuousClose :: "bool \<Rightarrow> monitor_state \<Rightarrow> monitor_state" where
  "publish_continuousClose ccTriggered s =
     (if (case pv_continuousClose s of None \<Rightarrow> False | Some c \<Rightarrow> c) \<noteq> ccTriggered
      then s\<lparr>pv_continuousClose := Some ccTriggered, continuousClose := ccTriggered\<rparr>
      else s)"

definition publish_status :: "bool \<Rightarrow> monitor_state \<Rightarrow> monitor_state" where
  "publish_status isDrowsy s = s\<lparr>status := (if isDrowsy then DROWSY else AWAKE)\<rparr>"

definition publish_blinkCount :: "monitor_state \<Rightarrow> monitor_state" where
  "publish_blinkCount s =
     (if (case pv_blinkCount s of None \<Rightarrow> 0 | Some c \<Rightarrow> c) \<noteq> longBlinkCount s
      then s\<lparr>pv_blinkCount := Some (longBlinkCount s), blinkCount := longBlinkCount s\<rparr>
      else s)"

definition publish_soundWarning :: "bool \<Rightarrow> monitor_state \<Rightarrow> monitor_state" where
  "publish_soundWarning detectedSoundWarning s =
     (if (case pv_soundWarning s of None \<Rightarrow> False | Some w \<Rightarrow> w) \<noteq> detectedSoundWarning
      then s\<lparr>pv_soundWarning := Some detectedSoundWarning,
             soundWarning := detectedSoundWarning\<rparr>
      else s)"

text \<open>
  The effect body once the frame has passed the rate limit. The dominant-emotion
  bookkeeping and the calls of \<open>scheduleSave\<close> are left out: they write none of the
  fields modelled here.
\<close>

definition process_frame :: "nat \<Rightarrow> monitor_state \<Rightarrow> frame_in \<Rightarrow> monitor_state" where
  "process_frame maxPoints s x =
     (let nowTs = f_now x;
          EAR = f_EAR x;
          s1 = ear_stage nowTs EAR s;
          s2 = calibration_stage nowTs EAR s1;
          closedNow = eyesCurrentlyClosed s2 EAR;
          s3 = eye_stage nowTs closedNow s2;
          s4 = perclos_stage nowTs closedNow s3;
          perclos = perclos_of (percBuffer s4);
          ccTriggered = continuousCloseTriggered nowTs closedNow s4;
          MAR_score = Math_min (Fin 1) (f_MAR x / Fin YAWN_MAR_NORMALIZE);
          s5 = mouth_stage MAR_score s4;
          pitchDeg = f_pitchDeg x;
          pitchVel = fst (pitch_velocity nowTs pitchDeg s5);
          s6 = head_stage nowTs pitchDeg s5;
          nod = headNodDetected pitchDeg pitchVel;
          snd0 = sound_score (f_envelope x) (f_times x) (f_clock x) (f_band x);
          soundScore = max 0 (min 1 (fst snd0));
          detectedSoundWarning = snd snd0;
          eyesInstant = (if ccTriggered then 1 else if closedNow then 9 / 10 else 0);
          perclosComponent = min 1 (perclos / PERCLOS_ALERT);
          marComponent = MAR_score;
          headComponent =
            (if nod then Fin 1 else Math_min (Fin 1) (Math_max (Fin 0) (pitchDeg / Fin 30)));
          soundComponent = soundScore;
          fz = fuse (emaRef s6) (Fin eyesInstant) (Fin perclosComponent) marComponent
                 headComponent (Fin soundComponent);
          ema = fst (snd fz);
          isDrowsy = snd (snd fz);
          s7 = s6\<lparr>emaRef := ema\<rparr>;
          s8 = publish_score ema s7;
          s9 = publish_history maxPoints isDrowsy s8;
          s10 = publish_perclos perclos s9;
          s11 = publish_continuousClose ccTriggered s10;
          s12 = publish_status isDrowsy s11;
          s13 = publish_blinkCount s12;
          s14 = publish_soundWarning detectedSoundWarning s13
      in s14)"

text \<open>
  The effect: nothing happens without landmarks, or within \<open>UPDATE_MS\<close> of the last
  processed frame.
\<close>

definition tick :: "nat \<Rightarrow> monitor_state \<Rightarrow> frame_in option \<Rightarrow> monitor_state" where
  "tick maxPoints s landmarksData =
     (case landmarksData of
        None \<Rightarrow> s
      | Some x \<Rightarrow>
          if f_now x - lastUpdate s < UPDATE_MS then s else process_frame maxPoints s x)"

text \<open>
  What can happen to the mounted hook: the effect runs (with or without landmarks), the
  user starts or stops a calibration at some \<open>Date.now()\<close>, or a blink timer fires.
\<close>

datatype event =
  Effect "frame_in option"
| StartCalibration int
| StopCalibration
| BlinkTimeout

definition handle :: "nat \<Rightarrow> monitor_state \<Rightarrow> event \<Rightarrow> monitor_state" where
  "handle maxPoints s ev =
     (case ev of
        Effect landmarksData \<Rightarrow> tick maxPoints s landmarksData
      | StartCalibration now \<Rightarrow> startCalibration now s
      | StopCalibration \<Rightarrow> stopCalibration s
      | BlinkTimeout \<Rightarrow> blink_timer_fires s)"

definition run_events :: "nat \<Rightarrow> monitor_state \<Rightarrow> event list \<Rightarrow> monitor_state" where
  "run_events maxPoints s evs = foldl (handle maxPoints) s evs"

text \<open>The closed flag that the effect computes for a frame, after the calibration block.\<close>

definition frame_closed :: "monitor_state \<Rightarrow> frame_in \<Rightarrow> bool" where
  "frame_closed s x =
     eyesCurrentlyClosed
       (calibration_stage (f_now x) (f_EAR x) (ear_stage (f_now x) (f_EAR x) s)) (f_EAR x)"

section \<open>Persistence: sending one record\<close>

text \<open>
  What one \<open>fetch\<close> of \<open>sendToServer\<close> can do: answer with \<open>res.ok\<close>, answer with another
  status, throw an \<open>AbortError\<close> (the controller of this send was aborted by a newer
  one), or throw anything else.
\<close>

datatype fetch_outcome = ResOk | ResNotOk | AbortError | OtherError

text \<open>
  The result of a send: the returned boolean, the number of \<open>fetch\<close> calls made and the
  delays slept, in order and in milliseconds.
\<close>

record send_result =
  sent :: bool
  fetches :: nat
  waits :: "nat list"

text \<open>
  The retry loop with \<open>k\<close> iterations left at index \<open>i\<close>; \<open>outcome i\<close> is what the fetch
  of iteration \<open>i\<close> does.
\<close>

fun send_loop :: "(nat \<Rightarrow> fetch_outcome) \<Rightarrow> nat \<Rightarrow> nat \<Rightarrow> nat \<Rightarrow> nat list \<Rightarrow> send_result" where
  "send_loop outcome 0 i wait slept = \<lparr>sent = False, fetches = i, waits = slept\<rparr>"
| "send_loop outcome (Suc k) i wait slept =
     (case outcome i of
        ResOk \<Rightarrow> \<lparr>sent = True, fetches = i + 1, waits = slept\<rparr>
      | AbortError \<Rightarrow> \<lparr>sent = False, fetches = i + 1, waits = slept\<rparr>
      | _ \<Rightarrow> send_loop outcome k (i + 1) (wait * 2) (slept @ [wait]))"

text \<open>\<open>driverId\<close> is falsy when it is undefined or the empty string.\<close>

definition sendToServer ::
  "string option \<Rightarrow> bool \<Rightarrow> (nat \<Rightarrow> fetch_outcome) \<Rightarrow> nat \<Rightarrow> send_result" where
  "sendToServer driverId onLine outcome attempts =
     (if driverId = None \<or> driverId = Some [] then \<lparr>sent = False, fetches = 0, waits = []\<rparr>
      else if \<not> onLine then \<lparr>sent = False, fetches = 0, waits = []\<rparr>
      else send_loop outcome attempts 0 300 [])"

section \<open>Invariants\<close>

subsection \<open>Of the monitoring hook\<close>

text \<open>The stored average and the published score are finite and in the unit interval.\<close>

definition score_inv :: "monitor_state \<Rightarrow> bool" where
  "score_inv s =
     ((Fin 0 \<le> emaRef s \<and> emaRef s \<le> Fin 1)
      \<and> (Fin 0 \<le> drowsyScore s \<and> drowsyScore s \<le> Fin 1))"

text \<open>The published blink count is the count kept in the ref.\<close>

definition blink_inv :: "monitor_state \<Rightarrow> bool" where
  "blink_inv s = (blinkCount s = longBlinkCount s)"

text \<open>
  The PERCLOS buffer is in time order, holds flags \<open>0\<close> and \<open>1\<close> stamped within the
  window before the last processed frame, and the published ratio is the one last
  written to \<open>prevValuesRef\<close>, within the publication threshold of the buffer's ratio.
\<close>

definition perc_inv :: "monitor_state \<Rightarrow> bool" where
  "perc_inv s =
     (sorted (map fst (percBuffer s))
      \<and> (\<forall>e\<in>set (percBuffer s).
            fst e \<le> lastUpdate s \<and> lastUpdate s - PERCLOS_WINDOW_MS \<le> fst e \<and> snd e \<le> 1)
      \<and> \<bar>perclosState s - perclos_of (percBuffer s)\<bar> \<le> 2 / 1000
      \<and> (case pv_perclos s of None \<Rightarrow> 0 | Some q \<Rightarrow> q) = perclosState s)"

subsection \<open>Of the sampling loop\<close>

text \<open>
  In a run of the sampling loop from the started state, call \<open>i\<close> took a sample (it
  passed the gate of \<open>sampleAudio\<close>).
\<close>

definition taken_at :: "sound_cfg \<Rightarrow> audio_in list \<Rightarrow> nat \<Rightarrow> bool" where
  "taken_at cfg xs i = sample_taken cfg (sample_run cfg sound_start (take i xs)) (xs ! i)"

text \<open>From call \<open>k\<close>, which took a sample, every sample taken was silent.\<close>

definition silent_since :: "sound_cfg \<Rightarrow> audio_in list \<Rightarrow> nat \<Rightarrow> bool" where
  "silent_since cfg xs k =
     (k < length xs \<and> taken_at cfg xs k
      \<and> (\<forall>i. k \<le> i \<and> i < length xs \<and> taken_at cfg xs i \<longrightarrow> currentlySilent cfg (xs ! i)))"

text \<open>
  The published flag is the flag of the ref; the flag is only set while the timer runs;
  and a running timer was started by a taken sample since which every taken sample was
  silent, the flag being set only once one of them came \<open>silenceSeconds\<close> after it.
\<close>

definition silence_inv :: "sound_cfg \<Rightarrow> audio_in list \<Rightarrow> sound_state \<Rightarrow> bool" where
  "silence_inv cfg xs s =
     (isSilent s = lastSilent s
      \<and> (lastSilent s \<longrightarrow> silenceStart s \<noteq> None)
      \<and> (\<forall>t0. silenceStart s = Some t0 \<longrightarrow>
            (\<exists>k. silent_since cfg xs k \<and> a_now (xs ! k) = t0
               \<and> (lastSilent s \<longrightarrow>
                    (\<exists>m. k \<le> m \<and> m < length xs \<and> taken_at cfg xs m
                        \<and> silenceSeconds cfg * 1000 \<le> a_now (xs ! m) - t0)))))"

section \<open>Example inputs\<close>

text \<open>
  A frame at time \<open>t\<close> with eye aspect ratio \<open>e\<close>, a closed mouth, a level head and no
  sound: the input of the examples below.
\<close>

definition frame_at :: "int \<Rightarrow> jsnum \<Rightarrow> frame_in" where
  "frame_at t e =
     \<lparr>f_now = t, f_EAR = e, f_MAR = Fin 0, f_pitchDeg = Fin 0, f_envelope = [],
      f_times = [], f_band = 0, f_clock = (\<lambda>i. t)\<rparr>"

text \<open>
  The state after a frame with closed eyes at 1000 ms followed by \<open>k\<close> frames with open
  eyes, 200 ms apart, on a hook mounted at time 0 with the default history length.
\<close>

definition example_run :: "nat \<Rightarrow> monitor_state" where
  "example_run k =
     run_events 60 (monitor_init 0)
       (Effect (Some (frame_at 1000 (Fin (2 / 10))))
        # map (\<lambda>i. Effect (Some (frame_at (1000 + 200 * int i) (Fin (35 / 100))))) [1 ..< Suc k])"

text \<open>
  An audio sample at \<open>performance.now() = t\<close> with level \<open>db\<close>, a flat spectrum and no
  low-band energy: the input of the examples below.
\<close>

definition sample_at :: "real \<Rightarrow> real \<Rightarrow> audio_in" where
  "sample_at t db =
     \<lparr>a_analyser = True, a_now = t, a_captureOk = True, a_db = Fin db, a_specVar = Fin 0,
      a_bandRatio = 0, a_dateNow = 0\<rparr>"

section \<open>Properties\<close>

subsection \<open>Arithmetic of finite JavaScript numbers\<close>

lemma Fin_arith [simp]:
  "Fin a + Fin b = Fin (a + b)"
  "Fin a - Fin b = Fin (a - b)"
  "Fin a * Fin b = Fin (a * b)"
  "- Fin a = Fin (- a)"
  "\<bar>Fin a\<bar> = Fin \<bar>a\<bar>"
  "b \<noteq> 0 \<Longrightarrow> Fin a / Fin b = Fin (a / b)"
  by (simp_all add: plus_jsnum_def minus_jsnum_def times_jsnum_def uminus_jsnum_def
      abs_jsnum_def divide_jsnum_def)

lemma Fin_compare [simp]:
  "(Fin a < Fin b) = (a < b)"
  "(Fin a \<le> Fin b) = (a \<le> b)"
  by (auto simp: less_jsnum_def less_eq_jsnum_def)

lemma Fin_min_max [simp]:
  "Math_min (Fin a) (Fin b) = Fin (min a b)"
  "Math_max (Fin a) (Fin b) = Fin (max a b)"
  by (auto simp: Math_min_def Math_max_def)

lemma NaN_compare [simp]:
  "\<not> NaN < x" "\<not> x < NaN" "\<not> NaN \<le> x" "\<not> x \<le> NaN"
  by (cases x; simp add: less_jsnum_def less_eq_jsnum_def)+

subsection \<open>What each block of the effect leaves alone\<close>

lemma ear_stage_fields [simp]:
  "status (ear_stage t e s) = status s"
  "emaRef (ear_stage t e s) = emaRef s"
  "drowsyScore (ear_stage t e s) = drowsyScore s"
  "pv_drowsyScore (ear_stage t e s) = pv_drowsyScore s"
  "longBlinkCount (ear_stage t e s) = longBlinkCount s"
  "blinkDetected (ear_stage t e s) = blinkDetected s"
  "blinkCount (ear_stage t e s) = blinkCount s"
  "pv_blinkCount (ear_stage t e s) = pv_blinkCount s"
  "lastEye_closed (ear_stage t e s) = lastEye_closed s"
  "lastEye_lastChangeTs (ear_stage t e s) = lastEye_lastChangeTs s"
  "prevEyesClosed (ear_stage t e s) = prevEyesClosed s"
  "percBuffer (ear_stage t e s) = percBuffer s"
  "lastUpdate (ear_stage t e s) = t"
  "perclosState (ear_stage t e s) = perclosState s"
  "pv_perclos (ear_stage t e s) = pv_perclos s"
  "EAR_CLOSED_REF (ear_stage t e s) = EAR_CLOSED_REF s"
  "EAR_OPEN_REF (ear_stage t e s) = EAR_OPEN_REF s"
  "calibrating (ear_stage t e s) = calibrating s"
  "calibrationStartTs (ear_stage t e s) = calibrationStartTs s"
  "calibrationSamples (ear_stage t e s) = calibrationSamples s"
  by (simp_all add: ear_stage_def)

lemma calibration_stage_fields [simp]:
  "status (calibration_stage t e s) = status s"
  "emaRef (calibration_stage t e s) = emaRef s"
  "drowsyScore (calibration_stage t e s) = drowsyScore s"
  "pv_drowsyScore (calibration_stage t e s) = pv_drowsyScore s"
  "longBlinkCount (calibration_stage t e s) = longBlinkCount s"
  "blinkDetected (calibration_stage t e s) = blinkDetected s"
  "blinkCount (calibration_stage t e s) = blinkCount s"
  "pv_blinkCount (calibration_stage t e s) = pv_blinkCount s"
  "lastEye_closed (calibration_stage t e s) = lastEye_closed s"
  "lastEye_lastChangeTs (calibration_stage t e s) = lastEye_lastChangeTs s"
  "prevEyesClosed (calibration_stage t e s) = prevEyesClosed s"
  "percBuffer (calibration_stage t e s) = percBuffer s"
  "lastUpdate (calibration_stage t e s) = lastUpdate s"
  "perclosState (calibration_stage t e s) = perclosState s"
  "pv_perclos (calibration_stage t e s) = pv_perclos s"
  by (simp_all add: calibration_stage_def stopCalibration_def Let_def split: option.splits bool.splits)

lemma startCalibration_fields [simp]:
  "status (startCalibration t s) = status s"
  "emaRef (startCalibration t s) = emaRef s"
  "drowsyScore (startCalibration t s) = drowsyScore s"
  "pv_drowsyScore (startCalibration t s) = pv_drowsyScore s"
  "longBlinkCount (startCalibration t s) = longBlinkCount s"
  "blinkDetected (startCalibration t s) = blinkDetected s"
  "blinkCount (startCalibration t s) = blinkCount s"
  "pv_blinkCount (startCalibration t s) = pv_blinkCount s"
  "lastEye_closed (startCalibration t s) = lastEye_closed s"
  "lastEye_lastChangeTs (startCalibration t s) = lastEye_lastChangeTs s"
  "prevEyesClosed (startCalibration t s) = prevEyesClosed s"
  "percBuffer (startCalibration t s) = percBuffer s"
  "lastUpdate (startCalibration t s) = lastUpdate s"
  "perclosState (startCalibration t s) = perclosState s"
  "pv_perclos (startCalibration t s) = pv_perclos s"
  "EAR_CLOSED_REF (startCalibration t s) = EAR_CLOSED_REF s"
  "EAR_OPEN_REF (startCalibration t s) = EAR_OPEN_REF s"
  "calibrating (startCalibration t s) = True"
  "calibrationStartTs (startCalibration t s) = Some t"
  "calibrationSamples (startCalibration t s) = []"
  by (simp_all add: startCalibration_def)

lemma stopCalibration_fields [simp]:
  "status (stopCalibration s) = status s"
  "emaRef (stopCalibration s) = emaRef s"
  "drowsyScore (stopCalibration s) = drowsyScore s"
  "pv_drowsyScore (stopCalibration s) = pv_drowsyScore s"
  "longBlinkCount (stopCalibration s) = longBlinkCount s"
  "blinkDetected (stopCalibration s) = blinkDetected s"
  "blinkCount (stopCalibration s) = blinkCount s"
  "pv_blinkCount (stopCalibration s) = pv_blinkCount s"
  "lastEye_closed (stopCalibration s) = lastEye_closed s"
  "lastEye_lastChangeTs (stopCalibration s) = lastEye_lastChangeTs s"
  "prevEyesClosed (stopCalibration s) = prevEyesClosed s"
  "percBuffer (stopCalibration s) = percBuffer s"
  "lastUpdate (stopCalibration s) = lastUpdate s"
  "perclosState (stopCalibration s) = perclosState s"
  "pv_perclos (stopCalibration s) = pv_perclos s"
  "calibrating (stopCalibration s) = False"
  "calibrationStartTs (stopCalibration s) = None"
  "calibrationSamples (stopCalibration s) = calibrationSamples s"
  by (simp_all add: stopCalibration_def Let_def)

lemma blink_timer_fires_fields [simp]:
  "status (blink_timer_fires s) = status s"
  "emaRef (blink_timer_fires s) = emaRef s"
  "drowsyScore (blink_timer_fires s) = drowsyScore s"
  "pv_drowsyScore (blink_timer_fires s) = pv_drowsyScore s"
  "longBlinkCount (blink_timer_fires s) = longBlinkCount s"
  "blinkCount (blink_timer_fires s) = blinkCount s"
  "pv_blinkCount (blink_timer_fires s) = pv_blinkCount s"
  "lastEye_closed (blink_timer_fires s) = lastEye_closed s"
  "lastEye_lastChangeTs (blink_timer_fires s) = lastEye_lastChangeTs s"
  "prevEyesClosed (blink_timer_fires s) = prevEyesClosed s"
  "percBuffer (blink_timer_fires s) = percBuffer s"
  "lastUpdate (blink_timer_fires s) = lastUpdate s"
  "perclosState (blink_timer_fires s) = perclosState s"
  "pv_perclos (blink_timer_fires s) = pv_perclos s"
  "EAR_CLOSED_REF (blink_timer_fires s) = EAR_CLOSED_REF s"
  "EAR_OPEN_REF (blink_timer_fires s) = EAR_OPEN_REF s"
  "calibrating (blink_timer_fires s) = calibrating s"
  "calibrationStartTs (blink_timer_fires s) = calibrationStartTs s"
  "calibrationSamples (blink_timer_fires s) = calibrationSamples s"
  by (simp_all add: blink_timer_fires_def split: list.splits)

lemma eye_stage_fields [simp]:
  "status (eye_stage t c s) = status s"
  "emaRef (eye_stage t c s) = emaRef s"
  "drowsyScore (eye_stage t c s) = drowsyScore s"
  "pv_drowsyScore (eye_stage t c s) = pv_drowsyScore s"
  "pv_blinkCount (eye_stage t c s) = pv_blinkCount s"
  "lastEye_closed (eye_stage t c s) = c"
  "prevEyesClosed (eye_stage t c s) = c"
  "percBuffer (eye_stage t c s) = percBuffer s"
  "lastUpdate (eye_stage t c s) = lastUpdate s"
  "perclosState (eye_stage t c s) = perclosState s"
  "pv_perclos (eye_stage t c s) = pv_perclos s"
  "EAR_CLOSED_REF (eye_stage t c s) = EAR_CLOSED_REF s"
  "EAR_OPEN_REF (eye_stage t c s) = EAR_OPEN_REF s"
  "calibrating (eye_stage t c s) = calibrating s"
  "calibrationStartTs (eye_stage t c s) = calibrationStartTs s"
  "calibrationSamples (eye_stage t c s) = calibrationSamples s"
  by (simp_all add: eye_stage_def Let_def)

lemma perclos_stage_fields [simp]:
  "status (perclos_stage t c s) = status s"
  "emaRef (perclos_stage t c s) = emaRef s"
  "drowsyScore (perclos_stage t c s) = drowsyScore s"
  "pv_drowsyScore (perclos_stage t c s) = pv_drowsyScore s"
  "longBlinkCount (perclos_stage t c s) = longBlinkCount s"
  "blinkDetected (perclos_stage t c s) = blinkDetected s"
  "blinkCount (perclos_stage t c s) = blinkCount s"
  "pv_blinkCount (perclos_stage t c s) = pv_blinkCount s"
  "lastEye_closed (perclos_stage t c s) = lastEye_closed s"
  "lastEye_lastChangeTs (perclos_stage t c s) = lastEye_lastChangeTs s"
  "prevEyesClosed (perclos_stage t c s) = prevEyesClosed s"
  "lastUpdate (perclos_stage t c s) = lastUpdate s"
  "perclosState (perclos_stage t c s) = perclosState s"
  "pv_perclos (perclos_stage t c s) = pv_perclos s"
  "EAR_CLOSED_REF (perclos_stage t c s) = EAR_CLOSED_REF s"
  "EAR_OPEN_REF (perclos_stage t c s) = EAR_OPEN_REF s"
  "calibrating (perclos_stage t c s) = calibrating s"
  "calibrationStartTs (perclos_stage t c s) = calibrationStartTs s"
  "calibrationSamples (perclos_stage t c s) = calibrationSamples s"
  by (simp_all add: perclos_stage_def)

lemma mouth_stage_fields [simp]:
  "status (mouth_stage m s) = status s"
  "emaRef (mouth_stage m s) = emaRef s"
  "drowsyScore (mouth_stage m s) = drowsyScore s"
  "pv_drowsyScore (mouth_stage m s) = pv_drowsyScore s"
  "longBlinkCount (mouth_stage m s) = longBlinkCount s"
  "blinkDetected (mouth_stage m s) = blinkDetected s"
  "blinkCount (mouth_stage m s) = blinkCount s"
  "pv_blinkCount (mouth_stage m s) = pv_blinkCount s"
  "lastEye_closed (mouth_stage m s) = lastEye_closed s"
  "lastEye_lastChangeTs (mouth_stage m s) = lastEye_lastChangeTs s"
  "prevEyesClosed (mouth_stage m s) = prevEyesClosed s"
  "percBuffer (mouth_stage m s) = percBuffer s"
  "lastUpdate (mouth_stage m s) = lastUpdate s"
  "perclosState (mouth_stage m s) = perclosState s"
  "pv_perclos (mouth_stage m s) = pv_perclos s"
  "EAR_CLOSED_REF (mouth_stage m s) = EAR_CLOSED_REF s"
  "EAR_OPEN_REF (mouth_stage m s) = EAR_OPEN_REF s"
  "calibrating (mouth_stage m s) = calibrating s"
  "calibrationStartTs (mouth_stage m s) = calibrationStartTs s"
  "calibrationSamples (mouth_stage m s) = calibrationSamples s"
  by (simp_all add: mouth_stage_def)

lemma head_stage_fields [simp]:
  "status (head_stage t d s) = status s"
  "emaRef (head_stage t d s) = emaRef s"
  "drowsyScore (head_stage t d s) = drowsyScore s"
  "pv_drowsyScore (head_stage t d s) = pv_drowsyScore s"
  "longBlinkCount (head_stage t d s) = longBlinkCount s"
  "blinkDetected (head_stage t d s) = blinkDetected s"
  "blinkCount (head_stage t d s) = blinkCount s"
  "pv_blinkCount (head_stage t d s) = pv_blinkCount s"
  "lastEye_closed (head_stage t d s) = lastEye_closed s"
  "lastEye_lastChangeTs (head_stage t d s) = lastEye_lastChangeTs s"
  "prevEyesClosed (head_stage t d s) = prevEyesClosed s"
  "percBuffer (head_stage t d s) = percBuffer s"
  "lastUpdate (head_stage t d s) = lastUpdate s"
  "perclosState (head_stage t d s) = perclosState s"
  "pv_perclos (head_stage t d s) = pv_perclos s"
  "EAR_CLOSED_REF (head_stage t d s) = EAR_CLOSED_REF s"
  "EAR_OPEN_REF (head_stage t d s) = EAR_OPEN_REF s"
  "calibrating (head_stage t d s) = calibrating s"
  "calibrationStartTs (head_stage t d s) = calibrationStartTs s"
  "calibrationSamples (head_stage t d s) = calibrationSamples s"
  by (simp_all add: head_stage_def)

lemma publish_score_fields [simp]:
  "status (publish_score a s) = status s"
  "emaRef (publish_score a s) = emaRef s"
  "longBlinkCount (publish_score a s) = longBlinkCount s"
  "blinkDetected (publish_score a s) = blinkDetected s"
  "blinkCount (publish_score a s) = blinkCount s"
  "pv_blinkCount (publish_score a s) = pv_blinkCount s"
  "lastEye_closed (publish_score a s) = lastEye_closed s"
  "lastEye_lastChangeTs (publish_score a s) = lastEye_lastChangeTs s"
  "prevEyesClosed (publish_score a s) = prevEyesClosed s"
  "percBuffer (publish_score a s) = percBuffer s"
  "lastUpdate (publish_score a s) = lastUpdate s"
  "perclosState (publish_score a s) = perclosState s"
  "pv_perclos (publish_score a s) = pv_perclos s"
  "EAR_CLOSED_REF (publish_score a s) = EAR_CLOSED_REF s"
  "EAR_OPEN_REF (publish_score a s) = EAR_OPEN_REF s"
  "calibrating (publish_score a s) = calibrating s"
  "calibrationStartTs (publish_score a s) = calibrationStartTs s"
  "calibrationSamples (publish_score a s) = calibrationSamples s"
  by (simp_all add: publish_score_def)

lemma publish_history_fields [simp]:
  "status (publish_history n d s) = status s"
  "emaRef (publish_history n d s) = emaRef s"
  "drowsyScore (publish_history n d s) = drowsyScore s"
  "pv_drowsyScore (publish_history n d s) = pv_drowsyScore s"
  "longBlinkCount (publish_history n d s) = longBlinkCount s"
  "blinkDetected (publish_history n d s) = blinkDetected s"
  "blinkCount (publish_history n d s) = blinkCount s"
  "pv_blinkCount (publish_history n d s) = pv_blinkCount s"
  "lastEye_closed (publish_history n d s) = lastEye_closed s"
  "lastEye_lastChangeTs (publish_history n d s) = lastEye_lastChangeTs s"
  "prevEyesClosed (publish_history n d s) = prevEyesClosed s"
  "percBuffer (publish_history n d s) = percBuffer s"
  "lastUpdate (publish_history n d s) = lastUpdate s"
  "perclosState (publish_history n d s) = perclosState s"
  "pv_perclos (publish_history n d s) = pv_perclos s"
  "EAR_CLOSED_REF (publish_history n d s) = EAR_CLOSED_REF s"
  "EAR_OPEN_REF (publish_history n d s) = EAR_OPEN_REF s"
  "calibrating (publish_history n d s) = calibrating s"
  "calibrationStartTs (publish_history n d s) = calibrationStartTs s"
  "calibrationSamples (publish_history n d s) = calibrationSamples s"
  by (simp_all add: publish_history_def)

lemma publish_perclos_fields [simp]:
  "status (publish_perclos q s) = status s"
  "emaRef (publish_perclos q s) = emaRef s"
  "drowsyScore (publish_perclos q s) = drowsyScore s"
  "pv_drowsyScore (publish_perclos q s) = pv_drowsyScore s"
  "longBlinkCount (publish_perclos q s) = longBlinkCount s"
  "blinkDetected (publish_perclos q s) = blinkDetected s"
  "blinkCount (publish_perclos q s) = blinkCount s"
  "pv_blinkCount (publish_perclos q s) = pv_blinkCount s"
  "lastEye_closed (publish_perclos q s) = lastEye_closed s"
  "lastEye_lastChangeTs (publish_perclos q s) = lastEye_lastChangeTs s"
  "prevEyesClosed (publish_perclos q s) = prevEyesClosed s"
  "percBuffer (publish_perclos q s) = percBuffer s"
  "lastUpdate (publish_perclos q s) = lastUpdate s"
  "EAR_CLOSED_REF (publish_perclos q s) = EAR_CLOSED_REF s"
  "EAR_OPEN_REF (publish_perclos q s) = EAR_OPEN_REF s"
  "calibrating (publish_perclos q s) = calibrating s"
  "calibrationStartTs (publish_perclos q s) = calibrationStartTs s"
  "calibrationSamples (publish_perclos q s) = calibrationSamples s"
  by (simp_all add: publish_perclos_def)

lemma publish_continuousClose_fields [simp]:
  "status (publish_continuousClose c s) = status s"
  "emaRef (publish_continuousClose c s) = emaRef s"
  "drowsyScore (publish_continuousClose c s) = drowsyScore s"
  "pv_drowsyScore (publish_continuousClose c s) = pv_drowsyScore s"
  "longBlinkCount (publish_continuousClose c s) = longBlinkCount s"
  "blinkDetected (publish_continuousClose c s) = blinkDetected s"
  "blinkCount (publish_continuousClose c s) = blinkCount s"
  "pv_blinkCount (publish_continuousClose c s) = pv_blinkCount s"
  "lastEye_closed (publish_continuousClose c s) = lastEye_closed s"
  "lastEye_lastChangeTs (publish_continuousClose c s) = lastEye_lastChangeTs s"
  "prevEyesClosed (publish_continuousClose c s) = prevEyesClosed s"
  "percBuffer (publish_continuousClose c s) = percBuffer s"
  "lastUpdate (publish_continuousClose c s) = lastUpdate s"
  "perclosState (publish_continuousClose c s) = perclosState s"
  "pv_perclos (publish_continuousClose c s) = pv_perclos s"
  "EAR_CLOSED_REF (publish_continuousClose c s) = EAR_CLOSED_REF s"
  "EAR_OPEN_REF (publish_continuousClose c s) = EAR_OPEN_REF s"
  "calibrating (publish_continuousClose c s) = calibrating s"
  "calibrationStartTs (publish_continuousClose c s) = calibrationStartTs s"
  "calibrationSamples (publish_continuousClose c s) = calibrationSamples s"
  by (simp_all add: publish_continuousClose_def)

lemma publish_status_fields [simp]:
  "status (publish_status d s) = (if d then DROWSY else AWAKE)"
  "emaRef (publish_status d s) = emaRef s"
  "drowsyScore (publish_status d s) = drowsyScore s"
  "pv_drowsyScore (publish_status d s) = pv_drowsyScore s"
  "longBlinkCount (publish_status d s) = longBlinkCount s"
  "blinkDetected (publish_status d s) = blinkDetected s"
  "blinkCount (publish_status d s) = blinkCount s"
  "pv_blinkCount (publish_status d s) = pv_blinkCount s"
  "lastEye_closed (publish_status d s) = lastEye_closed s"
  "lastEye_lastChangeTs (publish_status d s) = lastEye_lastChangeTs s"
  "prevEyesClosed (publish_status d s) = prevEyesClosed s"
  "percBuffer (publish_status d s) = percBuffer s"
  "lastUpdate (publish_status d s) = lastUpdate s"
  "perclosState (publish_status d s) = perclosState s"
  "pv_perclos (publish_status d s) = pv_perclos s"
  "EAR_CLOSED_REF (publish_status d s) = EAR_CLOSED_REF s"
  "EAR_OPEN_REF (publish_status d s) = EAR_OPEN_REF s"
  "calibrating (publish_status d s) = calibrating s"
  "calibrationStartTs (publish_status d s) = calibrationStartTs s"
  "calibrationSamples (publish_status d s) = calibrationSamples s"
  by (simp_all add: publish_status_def)

lemma publish_blinkCount_fields [simp]:
  "status (publish_blinkCount s) = status s"
  "emaRef (publish_blinkCount s) = emaRef s"
  "drowsyScore (publish_blinkCount s) = drowsyScore s"
  "pv_drowsyScore (publish_blinkCount s) = pv_drowsyScore s"
  "longBlinkCount (publish_blinkCount s) = longBlinkCount s"
  "blinkDetected (publish_blinkCount s) = blinkDetected s"
  "lastEye_closed (publish_blinkCount s) = lastEye_closed s"
  "lastEye_lastChangeTs (publish_blinkCount s) = lastEye_lastChangeTs s"
  "prevEyesClosed (publish_blinkCount s) = prevEyesClosed s"
  "percBuffer (publish_blinkCount s) = percBuffer s"
  "lastUpdate (publish_blinkCount s) = lastUpdate s"
  "perclosState (publish_blinkCount s) = perclosState s"
  "pv_perclos (publish_blinkCount s) = pv_perclos s"
  "EAR_CLOSED_REF (publish_blinkCount s) = EAR_CLOSED_REF s"
  "EAR_OPEN_REF (publish_blinkCount s) = EAR_OPEN_REF s"
  "calibrating (publish_blinkCount s) = calibrating s"
  "calibrationStartTs (publish_blinkCount s) = calibrationStartTs s"
  "calibrationSamples (publish_blinkCount s) = calibrationSamples s"
  by (simp_all add: publish_blinkCount_def)

lemma publish_soundWarning_fields [simp]:
  "status (publish_soundWarning w s) = status s"
  "emaRef (publish_soundWarning w s) = emaRef s"
  "drowsyScore (publish_soundWarning w s) = drowsyScore s"
  "pv_drowsyScore (publish_soundWarning w s) = pv_drowsyScore s"
  "longBlinkCount (publish_soundWarning w s) = longBlinkCount s"
  "blinkDetected (publish_soundWarning w s) = blinkDetected s"
  "blinkCount (publish_soundWarning w s) = blinkCount s"
  "pv_blinkCount (publish_soundWarning w s) = pv_blinkCount s"
  "lastEye_closed (publish_soundWarning w s) = lastEye_closed s"
  "lastEye_lastChangeTs (publish_soundWarning w s) = lastEye_lastChangeTs s"
  "prevEyesClosed (publish_soundWarning w s) = prevEyesClosed s"
  "percBuffer (publish_soundWarning w s) = percBuffer s"
  "lastUpdate (publish_soundWarning w s) = lastUpdate s"
  "perclosState (publish_soundWarning w s) = perclosState s"
  "pv_perclos (publish_soundWarning w s) = pv_perclos s"
  "EAR_CLOSED_REF (publish_soundWarning w s) = EAR_CLOSED_REF s"
  "EAR_OPEN_REF (publish_soundWarning w s) = EAR_OPEN_REF s"
  "calibrating (publish_soundWarning w s) = calibrating s"
  "calibrationStartTs (publish_soundWarning w s) = calibrationStartTs s"
  "calibrationSamples (publish_soundWarning w s) = calibrationSamples s"
  by (simp_all add: publish_soundWarning_def)

lemma monitor_init_fields [simp]:
  "lastUpdate (monitor_init m) = 0"
  "prevEyesClosed (monitor_init m) = False"
  "lastEye_closed (monitor_init m) = False"
  "lastEye_lastChangeTs (monitor_init m) = m"
  "percBuffer (monitor_init m) = []"
  "longBlinkCount (monitor_init m) = 0"
  "lastPitch (monitor_init m) = None"
  "lastPitchTs (monitor_init m) = None"
  "currentVel (monitor_init m) = None"
  "emaRef (monitor_init m) = Fin 0"
  "mouthRef (monitor_init m) = None"
  "calibrating (monitor_init m) = False"
  "calibrationStartTs (monitor_init m) = None"
  "calibrationSamples (monitor_init m) = []"
  "baselineEar (monitor_init m) = None"
  "EAR_CLOSED_REF (monitor_init m) = Fin (26 / 100)"
  "EAR_OPEN_REF (monitor_init m) = Fin (3 / 10)"
  "pv_drowsyScore (monitor_init m) = None"
  "pv_perclos (monitor_init m) = None"
  "pv_continuousClose (monitor_init m) = None"
  "pv_blinkCount (monitor_init m) = None"
  "pv_soundWarning (monitor_init m) = None"
  "status (monitor_init m) = AWAKE"
  "drowsyScore (monitor_init m) = Fin 0"
  "drowsyHistory (monitor_init m) = []"
  "calibrationProgress (monitor_init m) = 0"
  "blinkCount (monitor_init m) = 0"
  "blinkDetected (monitor_init m) = False"
  "blinkTimers (monitor_init m) = []"
  "soundWarning (monitor_init m) = False"
  "continuousClose (monitor_init m) = False"
  "perclosState (monitor_init m) = 0"
  "ear (monitor_init m) = Fin 0"
  "mar (monitor_init m) = Fin 0"
  by (simp_all add: monitor_init_def)

lemma frame_at_fields [simp]:
  "f_now (frame_at t e) = t"
  "f_EAR (frame_at t e) = e"
  "f_MAR (frame_at t e) = Fin 0"
  "f_pitchDeg (frame_at t e) = Fin 0"
  "f_envelope (frame_at t e) = []"
  "f_times (frame_at t e) = []"
  "f_band (frame_at t e) = 0"
  by (simp_all add: frame_at_def)

subsection \<open>The fields a processed frame writes\<close>

lemma calibration_stage_idle [simp]: "\<not> calibrating s \<Longrightarrow> calibration_stage t e s = s"
  by (simp add: calibration_stage_def)

lemma process_frame_eye:
  "lastUpdate (process_frame n s x) = f_now x"
  "prevEyesClosed (process_frame n s x) = frame_closed s x"
  "lastEye_closed (process_frame n s x) = frame_closed s x"
  "lastEye_lastChangeTs (process_frame n s x) =
     (if frame_closed s x \<noteq> lastEye_closed s then f_now x else lastEye_lastChangeTs s)"
  "longBlinkCount (process_frame n s x) =
     longBlinkCount s +
       (if lastEye_closed s \<and> \<not> frame_closed s x
           \<and> 250 \<le> f_now x - lastEye_lastChangeTs s \<and> f_now x - lastEye_lastChangeTs s < 500
        then 1 else 0)"
  "percBuffer (process_frame n s x) =
     prune (f_now x) (percBuffer s @ [(f_now x, if frame_closed s x then 1 else 0)])"
  by (simp_all add: process_frame_def Let_def frame_closed_def eye_stage_def perclos_stage_def
      LONG_BLINK_MS_def LONG_BLINK_MAX_MS_def)

lemma process_frame_blink_flag:
  "blinkDetected (process_frame n s x) =
     (if frame_closed s x \<noteq> lastEye_closed s then
        (if lastEye_closed s then
           (if 250 \<le> f_now x - lastEye_lastChangeTs s
                \<and> f_now x - lastEye_lastChangeTs s < 500 then True else blinkDetected s)
         else False)
      else blinkDetected s)"
  by (simp add: process_frame_def Let_def frame_closed_def eye_stage_def
      LONG_BLINK_MS_def LONG_BLINK_MAX_MS_def)

lemma calibration_after_ear:
  "calibrating (calibration_stage t e (ear_stage t e s)) = calibrating (calibration_stage t e s)"
  "calibrationStartTs (calibration_stage t e (ear_stage t e s)) = calibrationStartTs (calibration_stage t e s)"
  "calibrationSamples (calibration_stage t e (ear_stage t e s)) = calibrationSamples (calibration_stage t e s)"
  "EAR_CLOSED_REF (calibration_stage t e (ear_stage t e s)) = EAR_CLOSED_REF (calibration_stage t e s)"
  "EAR_OPEN_REF (calibration_stage t e (ear_stage t e s)) = EAR_OPEN_REF (calibration_stage t e s)"
  by (simp_all add: calibration_stage_def stopCalibration_def Let_def split: option.splits bool.splits)

lemma process_frame_calibration:
  "calibrating (process_frame n s x) = calibrating (calibration_stage (f_now x) (f_EAR x) s)"
  "calibrationStartTs (process_frame n s x) = calibrationStartTs (calibration_stage (f_now x) (f_EAR x) s)"
  "calibrationSamples (process_frame n s x) = calibrationSamples (calibration_stage (f_now x) (f_EAR x) s)"
  "EAR_CLOSED_REF (process_frame n s x) = EAR_CLOSED_REF (calibration_stage (f_now x) (f_EAR x) s)"
  "EAR_OPEN_REF (process_frame n s x) = EAR_OPEN_REF (calibration_stage (f_now x) (f_EAR x) s)"
  by (simp_all add: process_frame_def Let_def calibration_after_ear)

lemma blink_count_published:
  "blinkCount s = longBlinkCount s \<Longrightarrow> blinkCount (process_frame n s x) = longBlinkCount (process_frame n s x)"
  by (simp add: process_frame_def Let_def publish_blinkCount_def eye_stage_def)


subsection \<open>Fusion score, smoothing and status\<close>

lemmas fusion_constants = W_EYES_def W_PERCLOS_def W_MAR_def W_HEAD_def W_SOUND_def
  SOUND_SUPPORT_WEIGHT_def SMOOTH_ALPHA_def

lemma unit_iff: "(Fin 0 \<le> a \<and> a \<le> Fin 1) = (\<exists>r. a = Fin r \<and> 0 \<le> r \<and> r \<le> 1)"
  by (cases a) (auto simp: less_eq_jsnum_def)

lemma fuse_finite:
  "fuse (Fin prevScore) (Fin eyes) (Fin perclos) (Fin mouth) (Fin head) (Fin sound) =
     (let raw = max 0 (min 1 (8 / 10 * eyes + 5 / 10 * perclos + 35 / 100 * mouth
                               + 4 / 10 * head + 25 / 100 * sound));
          score = prevScore * (4 / 10) + raw * (6 / 10)
      in (Fin raw, Fin score, score > 5 / 10))"
  by (simp add: fuse_def ema_update_def Let_def fusion_constants)

lemma process_frame_status:
  "status (process_frame n s x) =
     (if Fin (5 / 10) < emaRef (process_frame n s x) then DROWSY else AWAKE)"
  by (simp add: process_frame_def Let_def fuse_def)

lemma process_frame_score:
  "\<exists>e p m h sd. emaRef (process_frame n s x) = fst (snd (fuse (emaRef s) e p m h sd))"
  "drowsyScore (process_frame n s x) = drowsyScore s \<or>
   drowsyScore (process_frame n s x) = emaRef (process_frame n s x)"
  by (simp_all add: process_frame_def Let_def publish_score_def, blast)

lemma fuse_raw_unit:
  "\<exists>r. fst (fuse prev e p m h sd) = Fin r \<and> 0 \<le> r \<and> r \<le> 1"
  by (cases "Fin W_EYES * e + Fin W_PERCLOS * p + Fin W_MAR * m + Fin W_HEAD * h + Fin W_SOUND * sd")
     (auto simp: fuse_def Let_def)

lemma process_frame_ema:
  "\<exists>raw. Fin 0 \<le> raw \<and> raw \<le> Fin 1
      \<and> emaRef (process_frame n s x) = ema_update (emaRef s) raw"
proof -
  obtain e p m h sd where
    "emaRef (process_frame n s x) = fst (snd (fuse (emaRef s) e p m h sd))"
    using process_frame_score(1) by blast
  moreover have "fst (snd (fuse (emaRef s) e p m h sd))
      = ema_update (emaRef s) (fst (fuse (emaRef s) e p m h sd))"
    by (simp add: fuse_def Let_def)
  moreover have "Fin 0 \<le> fst (fuse (emaRef s) e p m h sd)
      \<and> fst (fuse (emaRef s) e p m h sd) \<le> Fin 1"
    using fuse_raw_unit [of "emaRef s" e p m h sd] by (simp add: unit_iff)
  ultimately show ?thesis by metis
qed



lemma ema_update_Fin: "ema_update (Fin a) (Fin r) = Fin (a * (4 / 10) + r * (6 / 10))"
  by (simp add: ema_update_def SMOOTH_ALPHA_def)

lemma ema_iterate:
  "((\<lambda>sc. ema_update sc (Fin r)) ^^ n) (Fin s0) = Fin (r + (4 / 10) ^ n * (s0 - r))"
proof (induction n)
  case 0
  show ?case by simp
next
  case (Suc n)
  have "((\<lambda>sc. ema_update sc (Fin r)) ^^ Suc n) (Fin s0)
          = ema_update (Fin (r + (4 / 10) ^ n * (s0 - r))) (Fin r)"
    using Suc by simp
  also have "\<dots> = Fin ((r + (4 / 10) ^ n * (s0 - r)) * (4 / 10) + r * (6 / 10))"
    by (rule ema_update_Fin)
  also have "\<dots> = Fin (r + (4 / 10) ^ Suc n * (s0 - r))"
    by (simp add: field_simps)
  finally show ?case .
qed

lemma ema_gap_tends_to_zero:
  "(\<lambda>n. (4 / 10) ^ n * \<bar>s0 - r :: real\<bar>) \<longlonglongrightarrow> 0"
proof -
  have "(\<lambda>n. (4 / 10 :: real) ^ n) \<longlonglongrightarrow> 0"
    by (rule LIMSEQ_realpow_zero) simp_all
  then have "(\<lambda>n. (4 / 10 :: real) ^ n * \<bar>s0 - r\<bar>) \<longlonglongrightarrow> 0 * \<bar>s0 - r\<bar>"
    by (rule tendsto_mult_right)
  then show ?thesis by simp
qed



lemma fuse_raw_guard:
  "\<not> isFinite (Fin W_EYES * e + Fin W_PERCLOS * p + Fin W_MAR * m + Fin W_HEAD * h + Fin W_SOUND * sd)
   \<Longrightarrow> fst (fuse prev e p m h sd) = Fin 0"
  by (simp add: fuse_def Let_def)

lemma ema_update_unit:
  assumes "0 \<le> a" "a \<le> 1" "0 \<le> r" "r \<le> 1"
  shows "\<exists>b. ema_update (Fin a) (Fin r) = Fin b \<and> 0 \<le> b \<and> b \<le> 1"
proof -
  have "a * (4 / 10) + r * (6 / 10) \<le> 1 * (4 / 10) + 1 * (6 / 10)"
    using assms by (intro add_mono mult_right_mono) simp_all
  moreover have "0 \<le> a * (4 / 10) + r * (6 / 10)" using assms by simp
  ultimately show ?thesis by (simp add: ema_update_def SMOOTH_ALPHA_def)
qed

lemma fuse_ema_unit:
  assumes "Fin 0 \<le> prev \<and> prev \<le> Fin 1"
  shows "Fin 0 \<le> fst (snd (fuse prev e p m h sd)) \<and> fst (snd (fuse prev e p m h sd)) \<le> Fin 1"
proof -
  obtain a where a: "prev = Fin a" "0 \<le> a" "a \<le> 1" using assms unit_iff by blast
  obtain r where r: "fst (fuse prev e p m h sd) = Fin r" "0 \<le> r" "r \<le> 1"
    using fuse_raw_unit by blast
  have "fst (snd (fuse prev e p m h sd)) = ema_update prev (fst (fuse prev e p m h sd))"
    by (simp add: fuse_def Let_def)
  with a r ema_update_unit[of a r] show ?thesis by (auto simp: unit_iff)
qed

lemma handle_score_unit:
  assumes "score_inv s"
  shows "score_inv (handle n s ev)"
proof (cases ev)
  case (Effect d)
  show ?thesis
  proof (cases d)
    case None
    with Effect assms show ?thesis by (simp add: handle_def tick_def)
  next
    case (Some x)
    show ?thesis
    proof (cases "f_now x - lastUpdate s < UPDATE_MS")
      case True
      with Effect Some assms show ?thesis by (simp add: handle_def tick_def)
    next
      case False
      obtain e p m h sd where
        ema: "emaRef (process_frame n s x) = fst (snd (fuse (emaRef s) e p m h sd))"
        using process_frame_score(1) by blast
      have u: "Fin 0 \<le> emaRef (process_frame n s x) \<and> emaRef (process_frame n s x) \<le> Fin 1"
        unfolding ema using assms by (intro fuse_ema_unit) (simp add: score_inv_def)
      moreover have "Fin 0 \<le> drowsyScore (process_frame n s x)
          \<and> drowsyScore (process_frame n s x) \<le> Fin 1"
        using process_frame_score(2)[of n s x] u assms by (auto simp: score_inv_def)
      ultimately show ?thesis
        using Effect Some False by (simp add: handle_def tick_def score_inv_def)
    qed
  qed
next
  case (StartCalibration t)
  with assms show ?thesis by (simp add: handle_def score_inv_def)
next
  case StopCalibration
  with assms show ?thesis by (simp add: handle_def score_inv_def)
next
  case BlinkTimeout
  with assms show ?thesis by (simp add: handle_def score_inv_def)
qed

lemma run_events_score_unit: "score_inv s \<Longrightarrow> score_inv (run_events n s evs)"
  unfolding run_events_def
  by (induction evs arbitrary: s) (simp_all add: handle_score_unit)

lemma score_inv_init: "score_inv (monitor_init m)"
  by (simp add: score_inv_def monitor_init_def)

lemma unit_finite: "Fin 0 \<le> a \<and> a \<le> Fin 1 \<Longrightarrow> isFinite a"
  by (auto simp: unit_iff)

text \<open>
  C9. After every sequence of events since mounting, whatever the aspect ratios and the
  pitch of the frames were (finite or not), the published drowsiness score and the stored
  average are finite and lie in the unit interval. In the fusion step a weighted sum that
  is not finite is replaced by zero, the raw score is always finite and in the unit
  interval, and the average of a previous value in the unit interval stays there.
\<close>

theorem published_score_in_unit_interval:
  "isFinite (drowsyScore (run_events n (monitor_init m) evs))
   \<and> Fin 0 \<le> drowsyScore (run_events n (monitor_init m) evs)
   \<and> drowsyScore (run_events n (monitor_init m) evs) \<le> Fin 1
   \<and> isFinite (emaRef (run_events n (monitor_init m) evs))
   \<and> Fin 0 \<le> emaRef (run_events n (monitor_init m) evs)
   \<and> emaRef (run_events n (monitor_init m) evs) \<le> Fin 1
   \<and> (\<not> isFinite (Fin W_EYES * e + Fin W_PERCLOS * p + Fin W_MAR * mo + Fin W_HEAD * h
                     + Fin W_SOUND * sd)
        \<longrightarrow> fst (fuse prev e p mo h sd) = Fin 0)
   \<and> isFinite (fst (fuse prev e p mo h sd))
   \<and> Fin 0 \<le> fst (fuse prev e p mo h sd) \<and> fst (fuse prev e p mo h sd) \<le> Fin 1
   \<and> (Fin 0 \<le> prev \<and> prev \<le> Fin 1 \<longrightarrow>
        isFinite (fst (snd (fuse prev e p mo h sd)))
        \<and> Fin 0 \<le> fst (snd (fuse prev e p mo h sd))
        \<and> fst (snd (fuse prev e p mo h sd)) \<le> Fin 1)"
proof -
  have inv: "score_inv (run_events n (monitor_init m) evs)"
    by (rule run_events_score_unit) (rule score_inv_init)
  have raw: "Fin 0 \<le> fst (fuse prev e p mo h sd) \<and> fst (fuse prev e p mo h sd) \<le> Fin 1"
    using fuse_raw_unit [of prev e p mo h sd] by (simp add: unit_iff)
  show ?thesis
    using inv raw unit_finite [OF raw] fuse_raw_guard [of e p mo h sd prev]
      fuse_ema_unit [of prev e p mo h sd]
    by (auto simp: score_inv_def intro: unit_finite)
qed

theorem published_score_in_unit_interval_witness:
  "isFinite (drowsyScore (run_events 60 (monitor_init 0)
       [Effect (Some \<lparr>f_now = 1000, f_EAR = NaN, f_MAR = PInf, f_pitchDeg = NaN,
                       f_envelope = [], f_times = [], f_band = 0, f_clock = (\<lambda>i. 1000)\<rparr>)]))
   \<and> fst (fuse (Fin 0) (Fin 1) (Fin 0) NaN (Fin 0) (Fin 0)) = Fin 0
   \<and> isFinite (fst (snd (fuse (Fin (1 / 2)) (Fin 1) (Fin 0) NaN PInf (Fin 0))))"
  using published_score_in_unit_interval [of 60 0
      "[Effect (Some \<lparr>f_now = 1000, f_EAR = NaN, f_MAR = PInf, f_pitchDeg = NaN,
                       f_envelope = [], f_times = [], f_band = 0, f_clock = (\<lambda>i. 1000)\<rparr>)]"
      "Fin 1" "Fin 0" NaN "Fin 0" "Fin 0" "Fin 0"]
    published_score_in_unit_interval [of 60 0 "[]" "Fin 1" "Fin 0" NaN PInf "Fin 0" "Fin (1 / 2)"]
  by (simp add: plus_jsnum_def times_jsnum_def)


subsection \<open>Calibration\<close>

lemma foldl_add_Fin:
  "foldl (\<lambda>s x. s + x) (Fin a) (map Fin xs) = Fin (a + sum_list xs)"
  by (induction xs arbitrary: a) (simp_all add: add.assoc)

lemma reduce_sum_js_Fin: "reduce_sum_js (map Fin xs) = Fin (sum_list xs)"
  by (simp add: reduce_sum_js_def foldl_add_Fin)

lemma stopCalibration_progress: "calibrationProgress (stopCalibration s) = 1"
  by (simp add: stopCalibration_def Let_def)

lemma stopCalibration_no_samples:
  "calibrationSamples s = [] \<Longrightarrow>
     EAR_CLOSED_REF (stopCalibration s) = EAR_CLOSED_REF s
     \<and> EAR_OPEN_REF (stopCalibration s) = EAR_OPEN_REF s"
  by (simp add: stopCalibration_def Let_def)

lemma stopCalibration_samples:
  assumes "calibrationSamples s \<noteq> []"
  shows "EAR_CLOSED_REF (stopCalibration s) =
           Math_max (Fin (12 / 100))
             (reduce_sum_js (calibrationSamples s) / Fin (real (length (calibrationSamples s)))
                * Fin (6 / 10))"
    and "EAR_OPEN_REF (stopCalibration s) =
           Math_max (EAR_CLOSED_REF (stopCalibration s) + Fin (4 / 100))
             (reduce_sum_js (calibrationSamples s) / Fin (real (length (calibrationSamples s)))
                * Fin (75 / 100))"
  using assms by (simp_all add: stopCalibration_def Let_def)




subsection \<open>Blink classification\<close>

lemma frame_closed_idle:
  "\<not> calibrating s \<Longrightarrow>
     frame_closed s x =
       (if prevEyesClosed s then f_EAR x < EAR_OPEN_REF s else f_EAR x < EAR_CLOSED_REF s)"
  by (simp add: frame_closed_def eyesCurrentlyClosed_def)

lemma process_frame_idle:
  assumes "\<not> calibrating s"
  shows "\<not> calibrating (process_frame n s x)"
    and "EAR_CLOSED_REF (process_frame n s x) = EAR_CLOSED_REF s"
    and "EAR_OPEN_REF (process_frame n s x) = EAR_OPEN_REF s"
  using assms by (simp_all add: process_frame_calibration)

lemma tick_processed:
  "\<not> f_now x - lastUpdate s < UPDATE_MS \<Longrightarrow> tick n s (Some x) = process_frame n s x"
  by (simp add: tick_def)

lemma tick_skipped:
  "tick n s None = s"
  "f_now x - lastUpdate s < UPDATE_MS \<Longrightarrow> tick n s (Some x) = s"
  by (simp_all add: tick_def)

lemma handle_longBlinkCount:
  "longBlinkCount (handle n s ev) =
     longBlinkCount s +
       (case ev of
          Effect (Some x) \<Rightarrow>
            (if \<not> f_now x - lastUpdate s < UPDATE_MS \<and> lastEye_closed s \<and> \<not> frame_closed s x
                \<and> 250 \<le> f_now x - lastEye_lastChangeTs s
                \<and> f_now x - lastEye_lastChangeTs s < 500
             then 1 else 0)
        | _ \<Rightarrow> 0)"
  by (simp add: handle_def tick_def process_frame_eye split: event.splits option.splits)

lemma handle_blink_inv: "blink_inv s \<Longrightarrow> blink_inv (handle n s ev)"
  by (simp add: handle_def tick_def blink_inv_def blink_count_published
      split: event.splits option.splits)

lemma run_events_blink_inv: "blink_inv s \<Longrightarrow> blink_inv (run_events n s evs)"
  unfolding run_events_def
  by (induction evs arbitrary: s) (simp_all add: handle_blink_inv)

text \<open>
  C2 (amended). Whatever the state, an event adds one to the blink counter exactly when
  it is a processed frame that ends a closed period (closed to open) whose duration
  \<open>now - lastChangeTs\<close> is at least 250 ms and below 500 ms, and then the blink flag is
  raised; a closed period that ends after less than 250 ms, or after 500 ms or more,
  leaves the counter as it is, and so does every other event. In every state reached
  from mounting the published blink count is the counter.
\<close>

theorem blink_counter_half_open:
  "longBlinkCount (handle n s ev) =
     longBlinkCount s +
       (case ev of
          Effect (Some y) \<Rightarrow>
            (if \<not> f_now y - lastUpdate s < UPDATE_MS \<and> lastEye_closed s \<and> \<not> frame_closed s y
                \<and> 250 \<le> f_now y - lastEye_lastChangeTs s
                \<and> f_now y - lastEye_lastChangeTs s < 500
             then 1 else 0)
        | _ \<Rightarrow> 0)
   \<and> (\<not> f_now x - lastUpdate s < UPDATE_MS \<and> lastEye_closed s \<and> \<not> frame_closed s x
        \<and> 250 \<le> f_now x - lastEye_lastChangeTs s \<and> f_now x - lastEye_lastChangeTs s < 500
      \<longrightarrow> longBlinkCount (handle n s (Effect (Some x))) = longBlinkCount s + 1
          \<and> blinkDetected (handle n s (Effect (Some x))))
   \<and> (lastEye_closed s \<and> \<not> frame_closed s x
        \<and> (f_now x - lastEye_lastChangeTs s < 250 \<or> 500 \<le> f_now x - lastEye_lastChangeTs s)
      \<longrightarrow> longBlinkCount (handle n s (Effect (Some x))) = longBlinkCount s)
   \<and> blinkCount (run_events n (monitor_init m) evs)
       = longBlinkCount (run_events n (monitor_init m) evs)"
proof -
  have counter: "longBlinkCount (handle n s ev) =
     longBlinkCount s +
       (case ev of
          Effect (Some y) \<Rightarrow>
            (if \<not> f_now y - lastUpdate s < UPDATE_MS \<and> lastEye_closed s \<and> \<not> frame_closed s y
                \<and> 250 \<le> f_now y - lastEye_lastChangeTs s
                \<and> f_now y - lastEye_lastChangeTs s < 500
             then 1 else 0)
        | _ \<Rightarrow> 0)"
    by (rule handle_longBlinkCount)
  have blink: "longBlinkCount (handle n s (Effect (Some x))) = longBlinkCount s + 1
          \<and> blinkDetected (handle n s (Effect (Some x)))"
    if "\<not> f_now x - lastUpdate s < UPDATE_MS \<and> lastEye_closed s \<and> \<not> frame_closed s x
        \<and> 250 \<le> f_now x - lastEye_lastChangeTs s \<and> f_now x - lastEye_lastChangeTs s < 500"
    using that by (simp add: handle_longBlinkCount) (simp add: handle_def tick_def process_frame_blink_flag)
  have no_blink: "longBlinkCount (handle n s (Effect (Some x))) = longBlinkCount s"
    if "lastEye_closed s \<and> \<not> frame_closed s x
        \<and> (f_now x - lastEye_lastChangeTs s < 250 \<or> 500 \<le> f_now x - lastEye_lastChangeTs s)"
    using that by (auto simp: handle_longBlinkCount)
  have published: "blinkCount (run_events n (monitor_init m) evs)
       = longBlinkCount (run_events n (monitor_init m) evs)"
    using run_events_blink_inv [of "monitor_init m" n evs] by (simp add: blink_inv_def)
  from counter blink no_blink published show ?thesis by blast
qed

theorem blink_counter_half_open_witness:
  "longBlinkCount (run_events 60 (monitor_init 0)
      [Effect (Some (frame_at 1000 (Fin (2 / 10)))), Effect (Some (frame_at 1300 (Fin (35 / 100))))]) = 1
   \<and> blinkDetected (run_events 60 (monitor_init 0)
      [Effect (Some (frame_at 1000 (Fin (2 / 10)))), Effect (Some (frame_at 1300 (Fin (35 / 100))))])
   \<and> blinkCount (run_events 60 (monitor_init 0)
      [Effect (Some (frame_at 1000 (Fin (2 / 10)))), Effect (Some (frame_at 1300 (Fin (35 / 100))))]) = 1
   \<and> longBlinkCount (run_events 60 (monitor_init 0)
      [Effect (Some (frame_at 1000 (Fin (2 / 10)))), Effect (Some (frame_at 1200 (Fin (35 / 100))))]) = 0
   \<and> longBlinkCount (run_events 60 (monitor_init 0)
      [Effect (Some (frame_at 1000 (Fin (2 / 10)))), Effect (Some (frame_at 1501 (Fin (35 / 100))))]) = 0"
  using
    blink_counter_half_open [of 60 "handle 60 (monitor_init 0) (Effect (Some (frame_at 1000 (Fin (2 / 10)))))"
      "Effect (Some (frame_at 1300 (Fin (35 / 100))))" "frame_at 1300 (Fin (35 / 100))" 0
      "[Effect (Some (frame_at 1000 (Fin (2 / 10)))), Effect (Some (frame_at 1300 (Fin (35 / 100))))]"]
    blink_counter_half_open [of 60 "handle 60 (monitor_init 0) (Effect (Some (frame_at 1000 (Fin (2 / 10)))))"
      "Effect (Some (frame_at 1200 (Fin (35 / 100))))" "frame_at 1200 (Fin (35 / 100))" 0 "[]"]
    blink_counter_half_open [of 60 "handle 60 (monitor_init 0) (Effect (Some (frame_at 1000 (Fin (2 / 10)))))"
      "Effect (Some (frame_at 1501 (Fin (35 / 100))))" "frame_at 1501 (Fin (35 / 100))" 0 "[]"]
  by (simp add: run_events_def handle_def tick_def UPDATE_MS_def process_frame_eye
      process_frame_idle frame_closed_idle)

text \<open>
  C2 as stated fails at the upper end: a closed period of exactly 500 ms ends and the
  counter stays at zero.
\<close>

theorem blink_of_500ms_not_counted:
  "lastEye_closed (handle 60 (monitor_init 0) (Effect (Some (frame_at 1000 (Fin (2 / 10))))))
   \<and> \<not> frame_closed (handle 60 (monitor_init 0) (Effect (Some (frame_at 1000 (Fin (2 / 10))))))
         (frame_at 1500 (Fin (35 / 100)))
   \<and> f_now (frame_at 1500 (Fin (35 / 100)))
       - lastEye_lastChangeTs (handle 60 (monitor_init 0) (Effect (Some (frame_at 1000 (Fin (2 / 10))))))
       = 500
   \<and> longBlinkCount (handle 60 (monitor_init 0) (Effect (Some (frame_at 1000 (Fin (2 / 10)))))) = 0
   \<and> longBlinkCount (run_events 60 (monitor_init 0)
        [Effect (Some (frame_at 1000 (Fin (2 / 10)))), Effect (Some (frame_at 1500 (Fin (35 / 100))))]) = 0
   \<and> \<not> blinkDetected (run_events 60 (monitor_init 0)
        [Effect (Some (frame_at 1000 (Fin (2 / 10)))), Effect (Some (frame_at 1500 (Fin (35 / 100))))])"
  by (simp add: run_events_def handle_def tick_def UPDATE_MS_def process_frame_eye
      process_frame_idle frame_closed_idle process_frame_blink_flag)


subsection \<open>The closure window and the PERCLOS ratio\<close>

lemma publish_perclos_written:
  "pv_perclos (publish_perclos q s) =
     (if 2 / 1000 < \<bar>(case pv_perclos s of None \<Rightarrow> 0 | Some p \<Rightarrow> p) - q\<bar> then Some q
      else pv_perclos s)"
  "perclosState (publish_perclos q s) =
     (if 2 / 1000 < \<bar>(case pv_perclos s of None \<Rightarrow> 0 | Some p \<Rightarrow> p) - q\<bar> then q
      else perclosState s)"
  by (simp_all add: publish_perclos_def)

lemma process_frame_perclos:
  "pv_perclos (process_frame n s x) =
     (if 2 / 1000 < \<bar>(case pv_perclos s of None \<Rightarrow> 0 | Some q \<Rightarrow> q) - perclos_of (percBuffer (process_frame n s x))\<bar>
      then Some (perclos_of (percBuffer (process_frame n s x))) else pv_perclos s)"
  "perclosState (process_frame n s x) =
     (if 2 / 1000 < \<bar>(case pv_perclos s of None \<Rightarrow> 0 | Some q \<Rightarrow> q) - perclos_of (percBuffer (process_frame n s x))\<bar>
      then perclos_of (percBuffer (process_frame n s x)) else perclosState s)"
  by (simp_all add: process_frame_def Let_def publish_perclos_written del: if_split cong: if_cong)

lemma foldl_add_snd:
  "foldl (\<lambda>s x. s + snd x) (a::nat) buf = a + sum_list (map snd buf)"
  by (induction buf arbitrary: a) simp_all

lemma perclos_of_sum:
  "perclos_of buf = real (sum_list (map snd buf)) / real (max 1 (length buf))"
  by (simp add: perclos_of_def foldl_add_snd)

lemma sum_flags_count:
  "\<forall>e\<in>set buf. snd e \<le> (1::nat) \<Longrightarrow>
     sum_list (map snd buf) = length (filter (\<lambda>e. snd e = 1) buf)"
proof (induction buf)
  case Nil
  show ?case by simp
next
  case (Cons e es)
  then have "snd e = 0 \<or> snd e = 1" by auto
  with Cons show ?case by auto
qed

lemma prune_keeps_recent:
  "sorted (map fst buf) \<Longrightarrow> \<forall>e\<in>set (prune now buf). now - PERCLOS_WINDOW_MS \<le> fst e"
  by (induction buf) auto

lemma prune_subset: "set (prune now buf) \<subseteq> set buf"
  by (induction buf) auto

lemma prune_sorted: "sorted (map fst buf) \<Longrightarrow> sorted (map fst (prune now buf))"
  by (induction buf) auto

lemma perc_inv_init: "perc_inv (monitor_init m)"
  by (simp add: perc_inv_def perclos_of_def)

lemma process_frame_perc_inv:
  assumes inv: "perc_inv s" and gate: "\<not> f_now x - lastUpdate s < UPDATE_MS"
  shows "perc_inv (process_frame n s x)"
proof -
  let ?now = "f_now x"
  let ?new = "percBuffer s @ [(?now, if frame_closed s x then 1 else 0 :: nat)]"
  have buf: "percBuffer (process_frame n s x) = prune ?now ?new"
    by (simp add: process_frame_eye)
  have later: "\<forall>e\<in>set (percBuffer s). fst e \<le> ?now"
    using inv gate by (auto simp: perc_inv_def UPDATE_MS_def)
  then have srt: "sorted (map fst ?new)"
    using inv by (auto simp: perc_inv_def sorted_append)
  have 1: "sorted (map fst (percBuffer (process_frame n s x)))"
    unfolding buf using srt by (rule prune_sorted)
  have 2: "\<forall>e\<in>set (percBuffer (process_frame n s x)).
      fst e \<le> lastUpdate (process_frame n s x)
      \<and> lastUpdate (process_frame n s x) - PERCLOS_WINDOW_MS \<le> fst e \<and> snd e \<le> 1"
  proof
    fix e assume e: "e \<in> set (percBuffer (process_frame n s x))"
    then have "e \<in> set ?new" unfolding buf using prune_subset by blast
    then have "fst e \<le> ?now \<and> snd e \<le> 1" using later inv by (auto simp: perc_inv_def)
    moreover have "?now - PERCLOS_WINDOW_MS \<le> fst e"
      using prune_keeps_recent [OF srt, of ?now] e unfolding buf by blast
    ultimately show "fst e \<le> lastUpdate (process_frame n s x)
      \<and> lastUpdate (process_frame n s x) - PERCLOS_WINDOW_MS \<le> fst e \<and> snd e \<le> 1"
      by (simp add: process_frame_eye)
  qed
  have pub: "(case pv_perclos s of None \<Rightarrow> 0 | Some q \<Rightarrow> q) = perclosState s"
    using inv by (simp add: perc_inv_def)
  have 3: "\<bar>perclosState (process_frame n s x) - perclos_of (percBuffer (process_frame n s x))\<bar>
      \<le> 2 / 1000"
    by (simp add: process_frame_perclos(2) pub)
  have 4: "(case pv_perclos (process_frame n s x) of None \<Rightarrow> 0 | Some q \<Rightarrow> q)
      = perclosState (process_frame n s x)"
    by (simp add: process_frame_perclos pub)
  from 1 2 3 4 show ?thesis unfolding perc_inv_def by blast
qed

lemma handle_perc_inv: "perc_inv s \<Longrightarrow> perc_inv (handle n s ev)"
proof (cases ev)
  case (Effect d)
  assume inv: "perc_inv s"
  show ?thesis
  proof (cases d)
    case None
    with Effect inv show ?thesis by (simp add: handle_def tick_def)
  next
    case (Some x)
    with Effect inv show ?thesis
      by (simp add: handle_def tick_def process_frame_perc_inv)
  qed
qed (simp_all add: handle_def perc_inv_def)

lemma run_events_perc_inv: "perc_inv s \<Longrightarrow> perc_inv (run_events n s evs)"
  unfolding run_events_def
  by (induction evs arbitrary: s) (simp_all add: handle_perc_inv)



lemma prune_fresh: "buf \<noteq> [] \<Longrightarrow> \<not> fst (hd buf) < now - PERCLOS_WINDOW_MS \<Longrightarrow> prune now buf = buf"
  by (cases buf) simp_all

lemma example_run_0:
  "example_run 0 = handle 60 (monitor_init 0) (Effect (Some (frame_at 1000 (Fin (2 / 10)))))"
  by (simp add: example_run_def run_events_def)

lemma example_run_Suc:
  "example_run (Suc k) =
     handle 60 (example_run k)
       (Effect (Some (frame_at (1000 + 200 * int (Suc k)) (Fin (35 / 100)))))"
  by (simp add: example_run_def run_events_def del: upt_Suc add: upt_Suc_append)

lemma gap_above_threshold:
  assumes "k \<le> 20"
  shows "2 / 1000 < \<bar>1 / real (Suc k) - 1 / real (Suc (Suc k))\<bar>"
proof -
  have "real (Suc k) * real (Suc (Suc k)) \<le> 21 * 22"
    using assms by (intro mult_mono) simp_all
  moreover have "1 / real (Suc k) - 1 / real (Suc (Suc k))
      = 1 / (real (Suc k) * real (Suc (Suc k)))"
    by (simp add: field_simps)
  moreover have "0 < real (Suc k) * real (Suc (Suc k))" by simp
  ultimately have "1 / (21 * 22) \<le> 1 / real (Suc k) - 1 / real (Suc (Suc k))"
    by (simp add: frac_le)
  then show ?thesis by simp
qed

lemma example_run_state:
  "k \<le> 21 \<Longrightarrow>
     percBuffer (example_run k) = (1000, 1) # map (\<lambda>i. (1000 + 200 * int i, 0)) [1 ..< Suc k]
     \<and> lastUpdate (example_run k) = 1000 + 200 * int k
     \<and> \<not> calibrating (example_run k)
     \<and> EAR_CLOSED_REF (example_run k) = Fin (26 / 100)
     \<and> EAR_OPEN_REF (example_run k) = Fin (3 / 10)
     \<and> pv_perclos (example_run k) = Some (1 / real (Suc k))
     \<and> perclosState (example_run k) = 1 / real (Suc k)"
proof (induction k)
  case 0
  show ?case
    by (simp add: example_run_0 handle_def tick_def UPDATE_MS_def process_frame_eye
        process_frame_idle frame_closed_idle process_frame_perclos perclos_of_def
        PERCLOS_WINDOW_MS_def)
next
  case (Suc k)
  define s where "s = example_run k"
  define x where "x = frame_at (1000 + 200 * int (Suc k)) (Fin (35 / 100))"
  have x: "f_now x = 1000 + 200 * int (Suc k)" "f_EAR x = Fin (35 / 100)"
    by (simp_all add: x_def)
  from Suc have k: "k \<le> 20" by simp
  from Suc have st:
    "percBuffer s = (1000, 1) # map (\<lambda>i. (1000 + 200 * int i, 0)) [1 ..< Suc k]"
    "lastUpdate s = 1000 + 200 * int k" "\<not> calibrating s"
    "EAR_CLOSED_REF s = Fin (26 / 100)" "EAR_OPEN_REF s = Fin (3 / 10)"
    "pv_perclos s = Some (1 / real (Suc k))" "perclosState s = 1 / real (Suc k)"
    by (simp_all add: s_def)
  have run: "example_run (Suc k) = process_frame 60 s x"
    unfolding example_run_Suc s_def [symmetric] x_def [symmetric]
    by (simp add: handle_def tick_def UPDATE_MS_def st x)
  have opened: "\<not> frame_closed s x"
    by (simp add: frame_closed_idle st x)
  have buf: "percBuffer (process_frame 60 s x)
      = (1000, 1) # map (\<lambda>i. (1000 + 200 * int i, 0)) [1 ..< Suc (Suc k)]"
    using k by (simp add: process_frame_eye opened st x prune_fresh PERCLOS_WINDOW_MS_def
        del: upt_Suc add: upt_Suc_append)
  have ratio: "perclos_of (percBuffer (process_frame 60 s x)) = 1 / real (Suc (Suc k))"
    by (simp add: buf perclos_of_sum o_def del: upt_Suc)
  have pub: "pv_perclos (process_frame 60 s x) = Some (1 / real (Suc (Suc k)))"
    "perclosState (process_frame 60 s x) = 1 / real (Suc (Suc k))"
    using gap_above_threshold [OF k] by (simp_all add: process_frame_perclos ratio st)
  show ?case
    unfolding run
    by (simp add: buf pub process_frame_idle [OF st(3)] st process_frame_eye(1) x
        del: upt_Suc)
qed

lemma example_run_22:
  "perclosState (example_run 22) = 1 / 22"
  "perclos_of (percBuffer (example_run 22)) = 1 / 23"
  "length (percBuffer (example_run 22)) = 23"
  "sum_list (map snd (percBuffer (example_run 22))) = 1"
proof -
  define s where "s = example_run 21"
  define x where "x = frame_at (1000 + 200 * int (Suc 21)) (Fin (35 / 100))"
  have x: "f_now x = 5400" "f_EAR x = Fin (35 / 100)"
    by (simp_all add: x_def)
  have st:
    "percBuffer s = (1000, 1) # map (\<lambda>i. (1000 + 200 * int i, 0)) [1 ..< Suc 21]"
    "lastUpdate s = 5200" "\<not> calibrating s"
    "EAR_CLOSED_REF s = Fin (26 / 100)" "EAR_OPEN_REF s = Fin (3 / 10)"
    "pv_perclos s = Some (1 / 22)" "perclosState s = 1 / 22"
    using example_run_state [of 21] by (simp_all add: s_def)
  have "example_run (Suc 21) = process_frame 60 s x"
    unfolding example_run_Suc s_def [symmetric] x_def [symmetric]
    by (simp add: handle_def tick_def UPDATE_MS_def st x)
  then have run: "example_run 22 = process_frame 60 s x" by simp
  have opened: "\<not> frame_closed s x"
    by (simp add: frame_closed_idle st x)
  have buf: "percBuffer (process_frame 60 s x)
      = (1000, 1) # map (\<lambda>i. (1000 + 200 * int i, 0)) [1 ..< Suc 21] @ [(5400, 0)]"
    by (simp add: process_frame_eye opened st x prune_fresh PERCLOS_WINDOW_MS_def
        del: upt_Suc)
  show ratio: "perclos_of (percBuffer (example_run 22)) = 1 / 23"
    unfolding run by (simp add: buf perclos_of_sum o_def del: upt_Suc)
  show "perclosState (example_run 22) = 1 / 22"
    using ratio unfolding run by (simp add: process_frame_perclos st)
  show "length (percBuffer (example_run 22)) = 23"
    unfolding run by (simp add: buf del: upt_Suc)
  show "sum_list (map snd (percBuffer (example_run 22))) = 1"
    unfolding run by (simp add: buf o_def del: upt_Suc)
qed




subsection \<open>Peak detection and periodicity\<close>

lemma peak_step_idx:
  "set (map p_idx (peak_step vals tms clock a b c med sd peaks i)) \<subseteq> set (map p_idx peaks) \<union> {i}"
  by (auto simp: peak_step_def Let_def)

lemma foldl_peak_step_idx:
  "set (map p_idx (foldl (peak_step vals tms clock a b c med sd) peaks is))
     \<subseteq> set (map p_idx peaks) \<union> set is"
proof (induction "is" arbitrary: peaks)
  case Nil
  show ?case by simp
next
  case (Cons i "is")
  have "set (map p_idx (foldl (peak_step vals tms clock a b c med sd)
            (peak_step vals tms clock a b c med sd peaks i) is))
        \<subseteq> set (map p_idx (peak_step vals tms clock a b c med sd peaks i)) \<union> set is"
    by (rule Cons.IH)
  moreover note peak_step_idx [of vals tms clock a b c med sd peaks i]
  ultimately show ?case unfolding foldl_Cons list.set by blast
qed

lemma detectPeaks_idx:
  "p \<in> set (detectPeaks vals tms clock a b c) \<Longrightarrow> 1 \<le> p_idx p \<and> p_idx p < length vals - 1"
proof -
  assume p: "p \<in> set (detectPeaks vals tms clock a b c)"
  then have ne: "vals \<noteq> []" by (auto simp: detectPeaks_def)
  with p have "p_idx p \<in> set (map p_idx (foldl (peak_step vals tms clock a b c (median vals) (std vals)) [] [1 ..< length vals - 1]))"
    by (simp add: detectPeaks_def Let_def)
  with foldl_peak_step_idx [of vals tms clock a b c "median vals" "std vals" "[]" "[1 ..< length vals - 1]"]
  have "p_idx p \<in> set [1 ..< length vals - 1]" by auto
  then show ?thesis by simp
qed

lemma detectPeaks_short: "length vals < 3 \<Longrightarrow> detectPeaks vals tms clock a b c = []"
  by (simp add: detectPeaks_def Let_def)

lemma foldl_add_real:
  "foldl (\<lambda>s x. s + f x) (a::real) xs = a + sum_list (map f xs)"
  by (induction xs arbitrary: a) simp_all

lemma reduce_sum_sum_list: "reduce_sum xs = sum_list xs"
  using foldl_add_real [of "\<lambda>x. x" 0 xs] by (simp add: reduce_sum_def)

lemma std_formula:
  "xs \<noteq> [] \<Longrightarrow>
     std xs = sqrt (sum_list (map (\<lambda>x. (x - sum_list xs / real (length xs))\<^sup>2) xs)
                     / real (length xs))"
  by (simp add: std_def Let_def reduce_sum_sum_list foldl_add_real power2_eq_square)

lemma sqrt_le_bound: "0 \<le> y \<Longrightarrow> x \<le> y\<^sup>2 \<Longrightarrow> sqrt x \<le> y"
  by (rule real_le_lsqrt)

lemma peak_intervals_nth:
  "i < length peaks - 1 \<Longrightarrow> peak_intervals peaks ! i = p_t (peaks ! (i + 1)) - p_t (peaks ! i)"
  by (simp add: peak_intervals_def)

lemma peak_intervals_length: "length (peak_intervals peaks) = length peaks - 1"
  by (simp add: peak_intervals_def)

lemma sum_list_real_of_int: "sum_list (map real_of_int xs) = real_of_int (sum_list xs)"
  by (induction xs) simp_all

lemma evaluatePeriodicity_ok:
  "ok (evaluatePeriodicity peaks 3 500) =
     (3 \<le> length peaks
      \<and> std (map real_of_int (peak_intervals peaks)) \<le> 500
      \<and> 200 \<le> real_of_int (sum_list (peak_intervals peaks)) / real (length peaks - 1)
      \<and> real_of_int (sum_list (peak_intervals peaks)) / real (length peaks - 1) \<le> 2000)"
proof (cases "length peaks < 3")
  case True
  then show ?thesis by (simp add: evaluatePeriodicity_def)
next
  case False
  then have "real (length (peak_intervals peaks)) \<noteq> 0"
    by (simp add: peak_intervals_length)
  with False show ?thesis
    by (simp add: evaluatePeriodicity_def Let_def reduce_sum_sum_list peak_intervals_length
        sum_list_real_of_int)
qed

lemma ex_periodic:
  "ok (evaluatePeriodicity
        [\<lparr>p_idx = 1, p_t = 1000, p_v = 20\<rparr>, \<lparr>p_idx = 3, p_t = 1500, p_v = 20\<rparr>,
         \<lparr>p_idx = 5, p_t = 2020, p_v = 20\<rparr>, \<lparr>p_idx = 7, p_t = 2500, p_v = 20\<rparr>] 3 500)"
  apply (simp add: evaluatePeriodicity_ok peak_intervals_def upt_rec std_def reduce_sum_def)
  apply (rule sqrt_le_bound)
  apply simp_all
  done

lemma sqrt_le_iff_sq: "0 \<le> y \<Longrightarrow> (sqrt x \<le> y) = (x \<le> y\<^sup>2)"
  by (metis real_sqrt_le_iff real_sqrt_abs abs_of_nonneg)

lemma ex_detect:
  "detectPeaks [0, 100, 0, 100, 0, 100, 0, 100, 0]
      [750, 1000, 1250, 1500, 1760, 2020, 2260, 2500, 2750] (\<lambda>i. 0) 14 150 1
   = [\<lparr>p_idx = 1, p_t = 1000, p_v = 100\<rparr>, \<lparr>p_idx = 3, p_t = 1500, p_v = 100\<rparr>,
      \<lparr>p_idx = 5, p_t = 2020, p_v = 100\<rparr>, \<lparr>p_idx = 7, p_t = 2500, p_v = 100\<rparr>]"
  by (simp add: detectPeaks_def Let_def median_def std_def reduce_sum_def peak_step_def upt_rec
      sqrt_le_iff_sq)

lemma peak_step_sample:
  "\<forall>p\<in>set peaks. p_v p = vals ! p_idx p \<Longrightarrow>
   \<forall>p\<in>set (peak_step vals tms clock a b c med sd peaks i). p_v p = vals ! p_idx p"
  by (auto simp: peak_step_def Let_def)

lemma foldl_peak_step_sample:
  "\<forall>p\<in>set peaks. p_v p = vals ! p_idx p \<Longrightarrow>
   \<forall>p\<in>set (foldl (peak_step vals tms clock a b c med sd) peaks ixs). p_v p = vals ! p_idx p"
proof (induction ixs arbitrary: peaks)
  case Nil
  then show ?case by simp
next
  case (Cons i ixs)
  from Cons.prems have "\<forall>p\<in>set (peak_step vals tms clock a b c med sd peaks i). p_v p = vals ! p_idx p"
    by (rule peak_step_sample)
  then show ?case unfolding foldl_Cons by (rule Cons.IH)
qed

lemma detectPeaks_sample:
  "p \<in> set (detectPeaks vals tms clock a b c) \<Longrightarrow> p_v p = vals ! p_idx p"
  using foldl_peak_step_sample [of "[]" vals tms clock a b c "median vals" "std vals"
      "[1 ..< length vals - 1]"]
  by (cases "vals = []") (simp_all add: detectPeaks_def Let_def)

text \<open>
  C10. Every peak that \<open>detectPeaks\<close> accepts is a sample at an interior index: never
  the first sample and never the last. An envelope with fewer than three samples gives
  no peak.
\<close>

theorem detectPeaks_interior_only:
  "(\<forall>p\<in>set (detectPeaks vals tms clock minAmp minSep prom).
      0 < p_idx p \<and> p_idx p + 1 < length vals \<and> p_v p = vals ! p_idx p)
   \<and> (length vals < 3 \<longrightarrow> detectPeaks vals tms clock minAmp minSep prom = [])"
  using detectPeaks_idx [of _ vals tms clock minAmp minSep prom]
    detectPeaks_short [of vals tms clock minAmp minSep prom]
    detectPeaks_sample [of _ vals tms clock minAmp minSep prom]
  by fastforce

lemma ex_detect_edges:
  "detectPeaks [90, 0, 100, 0, 0, 0, 0, 0, 95] [] (\<lambda>i. 1000 + 200 * int i) 14 150 1
     = [\<lparr>p_idx = 2, p_t = 1400, p_v = 100\<rparr>]"
  by (simp add: detectPeaks_def Let_def median_def std_def reduce_sum_def peak_step_def upt_rec
      sqrt_le_iff_sq)

theorem detectPeaks_interior_only_witness:
  "detectPeaks [90, 0, 100, 0, 0, 0, 0, 0, 95] [] (\<lambda>i. 1000 + 200 * int i) 14 150 1
     = [\<lparr>p_idx = 2, p_t = 1400, p_v = 100\<rparr>]
   \<and> detectPeaks [100, 5] [0, 200] (\<lambda>i. 0) 14 150 1 = []"
  using detectPeaks_interior_only [of "[100, 5]" "[0, 200]" "\<lambda>i. 0" 14 150 1] ex_detect_edges
  by simp




subsection \<open>Sending with retries\<close>

lemma send_loop_Suc_if:
  "send_loop outcome (Suc k) i w slept =
     (if outcome i = ResOk then \<lparr>sent = True, fetches = i + 1, waits = slept\<rparr>
      else if outcome i = AbortError then \<lparr>sent = False, fetches = i + 1, waits = slept\<rparr>
      else send_loop outcome k (i + 1) (w * 2) (slept @ [w]))"
  by (cases "outcome i") simp_all

lemma send_loop_fetches: "fetches (send_loop outcome k i w slept) \<le> i + k"
proof (induction k arbitrary: i w slept)
  case 0
  show ?case by simp
next
  case (Suc k)
  have "fetches (send_loop outcome k (i + 1) (w * 2) (slept @ [w])) \<le> i + 1 + k"
    by (rule Suc.IH)
  then show ?case by (simp add: send_loop_Suc_if del: send_loop.simps)
qed

lemma send_loop_3:
  "send_loop outcome 3 0 300 [] =
     (if outcome 0 = ResOk then \<lparr>sent = True, fetches = 1, waits = []\<rparr>
      else if outcome 0 = AbortError then \<lparr>sent = False, fetches = 1, waits = []\<rparr>
      else if outcome 1 = ResOk then \<lparr>sent = True, fetches = 2, waits = [300]\<rparr>
      else if outcome 1 = AbortError then \<lparr>sent = False, fetches = 2, waits = [300]\<rparr>
      else if outcome 2 = ResOk then \<lparr>sent = True, fetches = 3, waits = [300, 600]\<rparr>
      else if outcome 2 = AbortError then \<lparr>sent = False, fetches = 3, waits = [300, 600]\<rparr>
      else \<lparr>sent = False, fetches = 3, waits = [300, 600, 1200]\<rparr>)"
proof -
  have three: "(3::nat) = Suc (Suc (Suc 0))" by simp
  have "send_loop outcome 3 0 300 [] = send_loop outcome (Suc (Suc (Suc 0))) 0 300 []"
    by (simp only: three)
  also have "\<dots> =
     (if outcome 0 = ResOk then \<lparr>sent = True, fetches = 0 + 1, waits = []\<rparr>
      else if outcome 0 = AbortError then \<lparr>sent = False, fetches = 0 + 1, waits = []\<rparr>
      else if outcome (0 + 1) = ResOk then \<lparr>sent = True, fetches = 0 + 1 + 1, waits = [] @ [300]\<rparr>
      else if outcome (0 + 1) = AbortError
        then \<lparr>sent = False, fetches = 0 + 1 + 1, waits = [] @ [300]\<rparr>
      else if outcome (0 + 1 + 1) = ResOk
        then \<lparr>sent = True, fetches = 0 + 1 + 1 + 1, waits = ([] @ [300]) @ [300 * 2]\<rparr>
      else if outcome (0 + 1 + 1) = AbortError
        then \<lparr>sent = False, fetches = 0 + 1 + 1 + 1, waits = ([] @ [300]) @ [300 * 2]\<rparr>
      else \<lparr>sent = False, fetches = 0 + 1 + 1 + 1,
             waits = (([] @ [300]) @ [300 * 2]) @ [300 * 2 * 2]\<rparr>)"
    by (simp only: send_loop_Suc_if send_loop.simps(1))
  also have "\<dots> =
     (if outcome 0 = ResOk then \<lparr>sent = True, fetches = 1, waits = []\<rparr>
      else if outcome 0 = AbortError then \<lparr>sent = False, fetches = 1, waits = []\<rparr>
      else if outcome 1 = ResOk then \<lparr>sent = True, fetches = 2, waits = [300]\<rparr>
      else if outcome 1 = AbortError then \<lparr>sent = False, fetches = 2, waits = [300]\<rparr>
      else if outcome 2 = ResOk then \<lparr>sent = True, fetches = 3, waits = [300, 600]\<rparr>
      else if outcome 2 = AbortError then \<lparr>sent = False, fetches = 3, waits = [300, 600]\<rparr>
      else \<lparr>sent = False, fetches = 3, waits = [300, 600, 1200]\<rparr>)"
    by (simp add: numeral_2_eq_2 numeral_3_eq_3)
  finally show ?thesis .
qed

text \<open>
  C7. \<open>sendToServer\<close> never makes more fetches than its attempt count, three by
  default. With three attempts the delays slept are a prefix of 300, 600, 1200 ms: one
  after each failed attempt, doubling each time. The first fetch that is aborted ends the
  send with \<open>false\<close> and no further fetch or delay; the first fetch answered \<open>ok\<close> ends
  it with \<open>true\<close>; three failures end it with \<open>false\<close>. When the browser is offline
  nothing is fetched, nothing is slept and the result is \<open>false\<close>.
\<close>

theorem sendToServer_retry_policy:
  "fetches (sendToServer driverId onLine outcome attempts) \<le> attempts
   \<and> fetches (sendToServer driverId onLine outcome 3) \<le> 3
   \<and> waits (sendToServer driverId onLine outcome 3)
       = take (length (waits (sendToServer driverId onLine outcome 3))) [300, 600, 1200]
   \<and> (driverId \<noteq> None \<and> driverId \<noteq> Some [] \<and> onLine
        \<and> outcome i = AbortError \<and> i < 3 \<and> (\<forall>j<i. outcome j \<noteq> ResOk \<and> outcome j \<noteq> AbortError)
      \<longrightarrow> sendToServer driverId onLine outcome 3
            = \<lparr>sent = False, fetches = i + 1, waits = take i [300, 600, 1200]\<rparr>)
   \<and> (driverId \<noteq> None \<and> driverId \<noteq> Some [] \<and> onLine
        \<and> outcome i = ResOk \<and> i < 3 \<and> (\<forall>j<i. outcome j \<noteq> ResOk \<and> outcome j \<noteq> AbortError)
      \<longrightarrow> sendToServer driverId onLine outcome 3
            = \<lparr>sent = True, fetches = i + 1, waits = take i [300, 600, 1200]\<rparr>)
   \<and> (driverId \<noteq> None \<and> driverId \<noteq> Some [] \<and> onLine
        \<and> (\<forall>j<3. outcome j \<noteq> ResOk \<and> outcome j \<noteq> AbortError)
      \<longrightarrow> sendToServer driverId onLine outcome 3
            = \<lparr>sent = False, fetches = 3, waits = [300, 600, 1200]\<rparr>)
   \<and> sendToServer driverId False outcome attempts = \<lparr>sent = False, fetches = 0, waits = []\<rparr>"
proof -
  have bound: "fetches (sendToServer driverId onLine outcome attempts) \<le> attempts"
    for attempts
    using send_loop_fetches [of outcome attempts 0 300 "[]"] by (simp add: sendToServer_def)
  have shape: "waits (sendToServer driverId onLine outcome 3)
       = take (length (waits (sendToServer driverId onLine outcome 3))) [300, 600, 1200]"
    by (simp add: sendToServer_def send_loop_3)
  have i3: "i < 3 \<Longrightarrow> i = 0 \<or> i = 1 \<or> i = 2" by arith
  have abort: "sendToServer driverId onLine outcome 3
            = \<lparr>sent = False, fetches = i + 1, waits = take i [300, 600, 1200]\<rparr>"
    if "driverId \<noteq> None \<and> driverId \<noteq> Some [] \<and> onLine
        \<and> outcome i = AbortError \<and> i < 3 \<and> (\<forall>j<i. outcome j \<noteq> ResOk \<and> outcome j \<noteq> AbortError)"
    using that i3 by (auto simp: sendToServer_def send_loop_3)
  have deliver: "sendToServer driverId onLine outcome 3
            = \<lparr>sent = True, fetches = i + 1, waits = take i [300, 600, 1200]\<rparr>"
    if "driverId \<noteq> None \<and> driverId \<noteq> Some [] \<and> onLine
        \<and> outcome i = ResOk \<and> i < 3 \<and> (\<forall>j<i. outcome j \<noteq> ResOk \<and> outcome j \<noteq> AbortError)"
    using that i3 by (auto simp: sendToServer_def send_loop_3)
  have exhaust: "sendToServer driverId onLine outcome 3
            = \<lparr>sent = False, fetches = 3, waits = [300, 600, 1200]\<rparr>"
    if "driverId \<noteq> None \<and> driverId \<noteq> Some [] \<and> onLine
        \<and> (\<forall>j<3. outcome j \<noteq> ResOk \<and> outcome j \<noteq> AbortError)"
    using that by (simp add: sendToServer_def send_loop_3)
  have offline: "sendToServer driverId False outcome attempts
      = \<lparr>sent = False, fetches = 0, waits = []\<rparr>"
    by (simp add: sendToServer_def)
  from bound [of attempts] bound [of 3] shape abort deliver exhaust offline
  show ?thesis by blast
qed

theorem sendToServer_retry_policy_witness:
  "sendToServer (Some ''driver-1'') True (\<lambda>i. if i = 1 then AbortError else ResNotOk) 3
     = \<lparr>sent = False, fetches = 2, waits = [300]\<rparr>
   \<and> sendToServer (Some ''driver-1'') True (\<lambda>i. if i = 2 then ResOk else OtherError) 3
     = \<lparr>sent = True, fetches = 3, waits = [300, 600]\<rparr>
   \<and> sendToServer (Some ''driver-1'') True (\<lambda>i. ResNotOk) 3
     = \<lparr>sent = False, fetches = 3, waits = [300, 600, 1200]\<rparr>
   \<and> sendToServer (Some ''driver-1'') False (\<lambda>i. ResOk) 3
     = \<lparr>sent = False, fetches = 0, waits = []\<rparr>"
  using
    sendToServer_retry_policy [of "Some ''driver-1''" True "\<lambda>i. if i = 1 then AbortError else ResNotOk" 3 1]
    sendToServer_retry_policy [of "Some ''driver-1''" True "\<lambda>i. if i = 2 then ResOk else OtherError" 3 2]
    sendToServer_retry_policy [of "Some ''driver-1''" True "\<lambda>i. ResNotOk" 3 0]
    sendToServer_retry_policy [of "Some ''driver-1''" False "\<lambda>i. ResOk" 3 0]
  by (simp add: sendToServer_def send_loop_3)


subsection \<open>Silence detection\<close>

lemma sound_stage_fields [simp]:
  "silenceStart (envelope_stage r d s) = silenceStart s"
  "lastSilent (envelope_stage r d s) = lastSilent s"
  "isSilent (envelope_stage r d s) = isSilent s"
  "lastSampleTime (envelope_stage r d s) = lastSampleTime s"
  "silenceStart (variance_stage cfg v s) = silenceStart s"
  "lastSilent (variance_stage cfg v s) = lastSilent s"
  "isSilent (variance_stage cfg v s) = isSilent s"
  "lastSampleTime (variance_stage cfg v s) = lastSampleTime s"
  "silenceStart (volume_stage n s) = silenceStart s"
  "lastSilent (volume_stage n s) = lastSilent s"
  "isSilent (volume_stage n s) = isSilent s"
  "lastSampleTime (volume_stage n s) = lastSampleTime s"
  "silenceStart (band_stage r s) = silenceStart s"
  "lastSilent (band_stage r s) = lastSilent s"
  "isSilent (band_stage r s) = isSilent s"
  "lastSampleTime (band_stage r s) = lastSampleTime s"
  "lastSampleTime (silence_stage cfg q t s) = lastSampleTime s"
  by (simp_all add: envelope_stage_def variance_stage_def volume_stage_def band_stage_def
      silence_stage_def Let_def)

lemma silence_stage_loud:
  "silenceStart (silence_stage cfg False t s) = None"
  "\<not> lastSilent (silence_stage cfg False t s)"
  "isSilent (silence_stage cfg False t s) = (if lastSilent s then False else isSilent s)"
  by (simp_all add: silence_stage_def)

lemma silence_stage_quiet:
  "silenceStart (silence_stage cfg True t s)
     = Some (case silenceStart s of None \<Rightarrow> t | Some t0 \<Rightarrow> t0)"
  "lastSilent (silence_stage cfg True t s)
     = (lastSilent s \<or>
        silenceSeconds cfg * 1000 \<le> t - (case silenceStart s of None \<Rightarrow> t | Some t0 \<Rightarrow> t0))"
  "isSilent (silence_stage cfg True t s)
     = (if \<not> lastSilent s \<and>
           silenceSeconds cfg * 1000 \<le> t - (case silenceStart s of None \<Rightarrow> t | Some t0 \<Rightarrow> t0)
        then True else isSilent s)"
  by (simp_all add: silence_stage_def Let_def)

lemma sampleAudio_taken:
  "sample_taken cfg s x \<Longrightarrow>
     sampleAudio cfg s x =
       band_stage (a_bandRatio x)
         (volume_stage (Math_max (Fin 0) (Math_min (Fin 1) ((a_db x + Fin 120) / Fin 120)))
           (silence_stage cfg (currentlySilent cfg x) (a_now x)
             (variance_stage cfg (a_specVar x)
               (envelope_stage (a_bandRatio x) (a_dateNow x) (s\<lparr>lastSampleTime := a_now x\<rparr>)))))"
  by (simp add: sample_taken_def sampleAudio_def Let_def)

lemma sampleAudio_lastSampleTime:
  "sample_taken cfg s x \<Longrightarrow> lastSampleTime (sampleAudio cfg s x) = a_now x"
  by (simp add: sampleAudio_taken)

lemma sampleAudio_not_taken:
  "\<not> sample_taken cfg s x \<Longrightarrow>
     silenceStart (sampleAudio cfg s x) = silenceStart s
     \<and> lastSilent (sampleAudio cfg s x) = lastSilent s
     \<and> isSilent (sampleAudio cfg s x) = isSilent s"
  by (auto simp: sample_taken_def sampleAudio_def)

lemma sampleAudio_loud:
  "sample_taken cfg s x \<Longrightarrow> \<not> currentlySilent cfg x \<Longrightarrow>
     silenceStart (sampleAudio cfg s x) = None
     \<and> \<not> lastSilent (sampleAudio cfg s x)
     \<and> isSilent (sampleAudio cfg s x) = (if lastSilent s then False else isSilent s)"
  by (simp add: sampleAudio_taken silence_stage_loud)

lemma sampleAudio_silent:
  "sample_taken cfg s x \<Longrightarrow> currentlySilent cfg x \<Longrightarrow>
     silenceStart (sampleAudio cfg s x)
       = Some (case silenceStart s of None \<Rightarrow> a_now x | Some t0 \<Rightarrow> t0)
     \<and> lastSilent (sampleAudio cfg s x)
       = (lastSilent s \<or>
          silenceSeconds cfg * 1000
            \<le> a_now x - (case silenceStart s of None \<Rightarrow> a_now x | Some t0 \<Rightarrow> t0))
     \<and> isSilent (sampleAudio cfg s x)
       = (if \<not> lastSilent s \<and>
             silenceSeconds cfg * 1000
               \<le> a_now x - (case silenceStart s of None \<Rightarrow> a_now x | Some t0 \<Rightarrow> t0)
          then True else isSilent s)"
  by (simp add: sampleAudio_taken silence_stage_quiet)

lemma sample_run_snoc:
  "sample_run cfg s (xs @ [x]) = sampleAudio cfg (sample_run cfg s xs) x"
  by (simp add: sample_run_def)

lemma taken_at_snoc: "i < length xs \<Longrightarrow> taken_at cfg (xs @ [x]) i = taken_at cfg xs i"
  by (simp add: taken_at_def nth_append)

lemma taken_at_last:
  "taken_at cfg (xs @ [x]) (length xs) = sample_taken cfg (sample_run cfg sound_start xs) x"
  by (simp add: taken_at_def)

lemma silent_since_snoc:
  assumes "silent_since cfg xs k"
    and "sample_taken cfg (sample_run cfg sound_start xs) x \<longrightarrow> currentlySilent cfg x"
  shows "silent_since cfg (xs @ [x]) k"
proof -
  from assms(1) have k: "k < length xs" and tk: "taken_at cfg xs k"
    and al: "\<And>i. k \<le> i \<Longrightarrow> i < length xs \<Longrightarrow> taken_at cfg xs i \<Longrightarrow> currentlySilent cfg (xs ! i)"
    by (auto simp: silent_since_def)
  have "currentlySilent cfg ((xs @ [x]) ! i)"
    if "k \<le> i" "i < length (xs @ [x])" "taken_at cfg (xs @ [x]) i" for i
  proof (cases "i < length xs")
    case True
    with that al [of i] show ?thesis by (simp add: taken_at_snoc nth_append)
  next
    case False
    with that have "i = length xs" by simp
    with that assms(2) show ?thesis by (simp add: taken_at_last)
  qed
  with k tk show ?thesis by (simp add: silent_since_def taken_at_snoc)
qed

lemma silent_since_new:
  assumes "sample_taken cfg (sample_run cfg sound_start xs) x" and "currentlySilent cfg x"
  shows "silent_since cfg (xs @ [x]) (length xs)"
proof -
  have "currentlySilent cfg ((xs @ [x]) ! i)"
    if "length xs \<le> i" "i < length (xs @ [x])" for i
  proof -
    from that have "i = length xs" by simp
    with assms(2) show ?thesis by simp
  qed
  with assms(1) show ?thesis by (simp add: silent_since_def taken_at_last)
qed

lemma silence_inv_step:
  assumes inv: "silence_inv cfg xs s" and s: "s = sample_run cfg sound_start xs"
  shows "silence_inv cfg (xs @ [x]) (sampleAudio cfg s x)"
proof -
  let ?s' = "sampleAudio cfg s x"
  let ?S = "silenceSeconds cfg * 1000"
  from inv have pub: "isSilent s = lastSilent s"
    and started: "lastSilent s \<Longrightarrow> silenceStart s \<noteq> None"
    and timer: "\<And>t0. silenceStart s = Some t0 \<Longrightarrow>
            (\<exists>k. silent_since cfg xs k \<and> a_now (xs ! k) = t0
               \<and> (lastSilent s \<longrightarrow>
                    (\<exists>m. k \<le> m \<and> m < length xs \<and> taken_at cfg xs m
                        \<and> ?S \<le> a_now (xs ! m) - t0)))"
    by (auto simp: silence_inv_def)
  consider (skip) "\<not> sample_taken cfg s x"
    | (loud) "sample_taken cfg s x" "\<not> currentlySilent cfg x"
    | (quiet) "sample_taken cfg s x" "currentlySilent cfg x"
    by blast
  then show ?thesis
  proof cases
    case skip
    note f = sampleAudio_not_taken [OF skip]
    have "\<exists>k. silent_since cfg (xs @ [x]) k \<and> a_now ((xs @ [x]) ! k) = t0
               \<and> (lastSilent ?s' \<longrightarrow>
                    (\<exists>m. k \<le> m \<and> m < length (xs @ [x]) \<and> taken_at cfg (xs @ [x]) m
                        \<and> ?S \<le> a_now ((xs @ [x]) ! m) - t0))"
      if "silenceStart ?s' = Some t0" for t0
    proof -
      from that f have "silenceStart s = Some t0" by simp
      from timer [OF this] obtain k where k: "silent_since cfg xs k" "a_now (xs ! k) = t0"
        and m: "lastSilent s \<longrightarrow>
                    (\<exists>m. k \<le> m \<and> m < length xs \<and> taken_at cfg xs m
                        \<and> ?S \<le> a_now (xs ! m) - t0)"
        by blast
      from k(1) have kl: "k < length xs" by (simp add: silent_since_def)
      have 1: "silent_since cfg (xs @ [x]) k"
        using k(1) skip by (intro silent_since_snoc) (simp_all add: s)
      have 2: "a_now ((xs @ [x]) ! k) = t0" using k(2) kl by (simp add: nth_append)
      have 3: "\<exists>m. k \<le> m \<and> m < length (xs @ [x]) \<and> taken_at cfg (xs @ [x]) m
                        \<and> ?S \<le> a_now ((xs @ [x]) ! m) - t0" if "lastSilent ?s'"
      proof -
        from that f have "lastSilent s" by simp
        with m obtain m where "k \<le> m" "m < length xs" "taken_at cfg xs m"
          "?S \<le> a_now (xs ! m) - t0" by blast
        then show ?thesis
          by (intro exI [of _ m]) (simp add: taken_at_snoc nth_append)
      qed
      from 1 2 3 show ?thesis by blast
    qed
    with f pub started show ?thesis by (simp add: silence_inv_def)
  next
    case loud
    note f = sampleAudio_loud [OF loud]
    with pub show ?thesis by (simp add: silence_inv_def)
  next
    case quiet
    note f = sampleAudio_silent [OF quiet]
    show ?thesis
    proof (cases "silenceStart s")
      case None
      with started have ns: "\<not> lastSilent s" by blast
      have 1: "silent_since cfg (xs @ [x]) (length xs)"
        using quiet by (intro silent_since_new) (simp_all add: s)
      have 2: "taken_at cfg (xs @ [x]) (length xs)"
        using quiet(1) by (simp add: taken_at_last s)
      have "\<exists>k. silent_since cfg (xs @ [x]) k \<and> a_now ((xs @ [x]) ! k) = a_now x
               \<and> (?S \<le> 0 \<longrightarrow>
                    (\<exists>m. k \<le> m \<and> m < length (xs @ [x]) \<and> taken_at cfg (xs @ [x]) m
                        \<and> ?S \<le> a_now ((xs @ [x]) ! m) - a_now x))"
        using 1 2 by (intro exI [of _ "length xs"]) auto
      with f None ns pub show ?thesis by (simp add: silence_inv_def)
    next
      case (Some t0)
      from timer [OF Some] obtain k where k: "silent_since cfg xs k" "a_now (xs ! k) = t0"
        and m: "lastSilent s \<longrightarrow>
                    (\<exists>m. k \<le> m \<and> m < length xs \<and> taken_at cfg xs m
                        \<and> ?S \<le> a_now (xs ! m) - t0)"
        by blast
      from k(1) have kl: "k < length xs" by (simp add: silent_since_def)
      have 1: "silent_since cfg (xs @ [x]) k"
        using k(1) quiet(2) by (intro silent_since_snoc) simp_all
      have 2: "a_now ((xs @ [x]) ! k) = t0" using k(2) kl by (simp add: nth_append)
      have 3: "\<exists>m. k \<le> m \<and> m < length (xs @ [x]) \<and> taken_at cfg (xs @ [x]) m
                        \<and> ?S \<le> a_now ((xs @ [x]) ! m) - t0"
        if "lastSilent s \<or> ?S \<le> a_now x - t0"
      proof (cases "lastSilent s")
        case True
        with m obtain m where "k \<le> m" "m < length xs" "taken_at cfg xs m"
          "?S \<le> a_now (xs ! m) - t0" by blast
        then show ?thesis
          by (intro exI [of _ m]) (simp add: taken_at_snoc nth_append)
      next
        case False
        with that have "?S \<le> a_now x - t0" by blast
        with kl quiet(1) show ?thesis
          by (intro exI [of _ "length xs"]) (simp add: taken_at_last s)
      qed
      from 1 2 3 have "\<exists>k. silent_since cfg (xs @ [x]) k \<and> a_now ((xs @ [x]) ! k) = t0
               \<and> (lastSilent s \<or> ?S \<le> a_now x - t0 \<longrightarrow>
                    (\<exists>m. k \<le> m \<and> m < length (xs @ [x]) \<and> taken_at cfg (xs @ [x]) m
                        \<and> ?S \<le> a_now ((xs @ [x]) ! m) - t0))"
        by blast
      with f Some pub show ?thesis by (simp add: silence_inv_def)
    qed
  qed
qed

lemma silence_inv_run: "silence_inv cfg xs (sample_run cfg sound_start xs)"
proof (induction xs rule: rev_induct)
  case Nil
  show ?case by (simp add: silence_inv_def sample_run_def sound_start_def)
next
  case (snoc x xs)
  then show ?case unfolding sample_run_snoc by (rule silence_inv_step) simp
qed



end
